theory Spec2Isabelle
  imports Main
begin

section \<open>JavaScript values\<close>

text \<open>
  The values that flow through the helpers, models and routes of jobly. Numbers are the
  integers the program handles (ids, counts, placeholder indices) and \<open>NaN\<close>: \<open>JNum n\<close> is
  the Number that the literal \<open>n\<close> denotes, \<open>n\<close> itself below \<open>2^53\<close> in magnitude; \<open>JFun\<close> is a
  built-in function, named, as found on \<open>Object.prototype\<close>; \<open>JArr\<close> is an array, as the
  rows of a query result are. An object is the list of its
  own enumerable properties in the order \<open>Object.keys\<close> and \<open>Object.values\<close> enumerate
  them; the keys of an object are distinct.
\<close>

datatype jsval =
    JUndefined
  | JNull
  | JBool bool
  | JNum int
  | JNaN
  | JStr string
  | JFun string
  | JArr "jsval list"
  | JObj "(string \<times> jsval) list"

type_synonym jsobj = "(string \<times> jsval) list"

text \<open>Truthiness, as \<open>!x\<close>, \<open>x || y\<close> and \<open>if (x)\<close> decide it.\<close>

fun truthy :: "jsval \<Rightarrow> bool" where
  "truthy JUndefined = False"
| "truthy JNull = False"
| "truthy (JBool b) = b"
| "truthy (JNum n) = (n \<noteq> 0)"
| "truthy JNaN = False"
| "truthy (JStr s) = (s \<noteq> [])"
| "truthy (JFun f) = True"
| "truthy (JArr xs) = True"
| "truthy (JObj ps) = True"

definition js_or :: "jsval \<Rightarrow> jsval \<Rightarrow> jsval" where
  "js_or a b = (if truthy a then a else b)"

text \<open>
  Every object written as a literal, parsed from JSON or returned as a row inherits the
  properties of \<open>Object.prototype\<close>: a property read \<open>obj[key]\<close> that finds no own property
  finds these. \<open>__proto__\<close> reads as the prototype object itself.
\<close>

definition objectPrototype :: jsobj where
  "objectPrototype =
     [(''constructor'', JFun ''Object''),
      (''__defineGetter__'', JFun ''__defineGetter__''),
      (''__defineSetter__'', JFun ''__defineSetter__''),
      (''hasOwnProperty'', JFun ''hasOwnProperty''),
      (''__lookupGetter__'', JFun ''__lookupGetter__''),
      (''__lookupSetter__'', JFun ''__lookupSetter__''),
      (''isPrototypeOf'', JFun ''isPrototypeOf''),
      (''propertyIsEnumerable'', JFun ''propertyIsEnumerable''),
      (''toString'', JFun ''toString''),
      (''valueOf'', JFun ''valueOf''),
      (''__proto__'', JObj []),
      (''toLocaleString'', JFun ''toLocaleString'')]"

definition js_get :: "jsobj \<Rightarrow> string \<Rightarrow> jsval" where
  "js_get obj key =
     (case map_of obj key of
        Some v \<Rightarrow> v
      | None \<Rightarrow> (case map_of objectPrototype key of Some v \<Rightarrow> v | None \<Rightarrow> JUndefined))"

text \<open>\<open>obj[key] = v\<close>: an existing property keeps its place, a new one goes last.\<close>

fun js_set :: "jsobj \<Rightarrow> string \<Rightarrow> jsval \<Rightarrow> jsobj" where
  "js_set [] key v = [(key, v)]"
| "js_set ((k, w) # ps) key v = (if k = key then (k, v) # ps else (k, w) # js_set ps key v)"

text \<open>\<open>delete obj[key]\<close>.\<close>

definition js_delete :: "jsobj \<Rightarrow> string \<Rightarrow> jsobj" where
  "js_delete obj key = filter (\<lambda>p. fst p \<noteq> key) obj"

subsection \<open>Numbers and values as text\<close>

definition digit_char :: "nat \<Rightarrow> char" where
  "digit_char d = ''0123456789'' ! d"

text \<open>
  The decimal digits of a natural number: the text of a Number that is a natural number
  below \<open>2^53\<close>, as every index and length is.
\<close>

fun decimal :: "nat \<Rightarrow> string" where
  "decimal n = (if 10 \<le> n then decimal (n div 10) else []) @ [digit_char (n mod 10)]"

declare decimal.simps [simp del]

text \<open>
  From \<open>2^53\<close> on a Number holds 53 significant bits: the Number that an integer literal
  denotes is the nearest such, a tie going to the even significand.
\<close>

fun bit_length :: "nat \<Rightarrow> nat" where
  "bit_length n = (if n = 0 then 0 else Suc (bit_length (n div 2)))"

declare bit_length.simps [simp del]

definition to_double :: "nat \<Rightarrow> nat" where
  "to_double m =
     (if m < 2 ^ 53 then m
      else
        let e = bit_length m - 53; q = m div 2 ^ e; r = m mod 2 ^ e; half = 2 ^ (e - 1)
        in (if half < r \<or> (r = half \<and> odd q) then q + 1 else q) * 2 ^ e)"

text \<open>
  \<open>Number::toString\<close> prints the fewest significant digits that denote the same Number, the
  closest such value if there are several, the even one on a tie: \<open>shortest_at x j\<close> looks
  for it among the multiples of \<open>10^j\<close> next to \<open>x\<close>, then of \<open>10^(j - 1)\<close>, down to \<open>x\<close>
  itself.
\<close>

fun shortest_at :: "nat \<Rightarrow> nat \<Rightarrow> nat" where
  "shortest_at x 0 = x"
| "shortest_at x (Suc j) =
     (let p = 10 ^ Suc j; s = x div p; lo = s * p; hi = lo + p;
          lo_ok = (to_double lo = x); hi_ok = (to_double hi = x)
      in if lo_ok \<and> hi_ok then
           (if x - lo < hi - x then lo else if hi - x < x - lo then hi
            else if even s then lo else hi)
         else if lo_ok then lo
         else if hi_ok then hi
         else shortest_at x j)"

definition shortest :: "nat \<Rightarrow> nat" where
  "shortest x = shortest_at x (length (decimal x) - 1)"

text \<open>The form \<open>d.ddde+n\<close>, which a Number of more than 21 digits takes.\<close>

definition exponent_text :: "nat \<Rightarrow> string" where
  "exponent_text v =
     (let ds = decimal v;
          s = rev (dropWhile (\<lambda>c. c = CHR ''0'') (rev ds));
          e = ''e+'' @ decimal (length ds - 1)
      in if length s = 1 then s @ e else hd s # ''.'' @ tl s @ e)"

text \<open>The text of the Number that a natural number, and an integer, denotes.\<close>

definition number_text_nat :: "nat \<Rightarrow> string" where
  "number_text_nat m =
     (if m < 2 ^ 53 then decimal m
      else
        let x = to_double m in
        if 2 ^ 1024 \<le> x then ''Infinity''
        else
          let v = shortest x in
          if length (decimal v) \<le> 21 then decimal v else exponent_text v)"

definition number_text :: "int \<Rightarrow> string" where
  "number_text i =
     (if 0 \<le> i then number_text_nat (nat i) else CHR ''-'' # number_text_nat (nat (- i)))"

text \<open>\<open>xs.join(sep)\<close> on an array of strings.\<close>

fun join :: "string \<Rightarrow> string list \<Rightarrow> string" where
  "join sep [] = []"
| "join sep [x] = x"
| "join sep (x # y # ys) = x @ sep @ join sep (y # ys)"

text \<open>
  The text a template literal \<open>`${v}`\<close> inserts for a value (Node prints a built-in
  function with the body \<open>[native code]\<close>, a plain object as \<open>[object Object]\<close>, and an
  array as its elements joined by commas, \<open>undefined\<close> and \<open>null\<close> as nothing).
\<close>

fun js_toString :: "jsval \<Rightarrow> string" where
  "js_toString JUndefined = ''undefined''"
| "js_toString JNull = ''null''"
| "js_toString (JBool b) = (if b then ''true'' else ''false'')"
| "js_toString (JNum n) = number_text n"
| "js_toString JNaN = ''NaN''"
| "js_toString (JStr s) = s"
| "js_toString (JFun f) = ''function '' @ f @ ''() { [native code] }''"
| "js_toString (JArr xs) =
     join '','' (map (\<lambda>x. if x = JUndefined \<or> x = JNull then [] else js_toString x) xs)"
| "js_toString (JObj ps) = ''[object Object]''"

section \<open>Errors\<close>

text \<open>
  The error classes of \<open>expressError\<close> that the code throws, and the failures of its
  collaborators: the store (\<open>DbError\<close>) and the password hash (\<open>BcryptError\<close>). A
  \<open>BadRequestError\<close> is built from one message or from the list of a validator's messages.
\<close>

datatype message = Text string | Texts "string list"

datatype error =
    NotFoundError string
  | BadRequestError message
  | UnauthorizedError string
  | DbError string
  | BcryptError string

section \<open>helpers/sql: sqlForPartialUpdate\<close>

record partial_update =
  setCols :: string
  "values" :: "jsval list"

text \<open>The column that a key stands for: \<open>jsToSql[colName] || colName\<close>, as text.\<close>

definition column_name :: "jsobj \<Rightarrow> string \<Rightarrow> string" where
  "column_name jsToSql colName = js_toString (js_or (js_get jsToSql colName) (JStr colName))"

text \<open>The fragment of the column \<open>colName\<close> at index \<open>idx\<close> of \<open>keys\<close>.\<close>

definition col_fragment :: "jsobj \<Rightarrow> string \<Rightarrow> nat \<Rightarrow> string" where
  "col_fragment jsToSql colName idx =
     ''\"'' @ column_name jsToSql colName @ ''\"=$'' @ decimal (idx + 1)"

definition sqlForPartialUpdate :: "jsobj \<Rightarrow> jsobj \<Rightarrow> error + partial_update" where
  "sqlForPartialUpdate dataToUpdate jsToSql =
     (let keys = map fst dataToUpdate in
      if length keys = 0 then Inl (BadRequestError (Text ''No data''))
      else
        let cols = map (\<lambda>(colName, idx). col_fragment jsToSql colName idx)
                     (zip keys [0..<length keys])
        in Inr \<lparr> setCols = join '', '' cols, values = map snd dataToUpdate \<rparr>)"

section \<open>Collaborators\<close>

text \<open>
  What the models and routes call and this repository does not define: the store behind
  \<open>db.query\<close> (rows, or a failure message, and the store afterwards), \<open>bcrypt.hash\<close> at the
  configured work factor, \<open>jsonschema.validate\<close> against a named schema (the stacks of its
  errors; the instance is valid when there are none), \<open>createToken\<close>, \<open>parseInt(_, 10)\<close>, the
  comparison \<open>+a > +b\<close> of two values as numbers, and \<open>Company.findAll\<close>.
\<close>

record 'st env =
  db_query :: "string \<Rightarrow> jsval list \<Rightarrow> 'st \<Rightarrow> (string + jsobj list) \<times> 'st"
  bcrypt_hash :: "jsval \<Rightarrow> string + string"
  validate :: "string \<Rightarrow> jsobj \<Rightarrow> string list"
  createToken :: "jsval \<Rightarrow> jsval"
  parseInt10 :: "jsval \<Rightarrow> jsval"
  plus_gt :: "jsval \<Rightarrow> jsval \<Rightarrow> bool"
  company_findAll :: "jsobj \<Rightarrow> 'st \<Rightarrow> (error + jsval) \<times> 'st"

text \<open>
  An asynchronous function is a function of the store that returns a value or throws, and
  the store afterwards. \<open>await m k\<close> continues with \<open>k\<close> on the value of \<open>m\<close>; what \<open>m\<close>
  throws propagates.
\<close>

type_synonym ('a, 'st) async = "'st \<Rightarrow> (error + 'a) \<times> 'st"

definition resolve :: "'a \<Rightarrow> ('a, 'st) async" where
  "resolve x s = (Inr x, s)"

definition reject :: "error \<Rightarrow> ('a, 'st) async" where
  "reject e s = (Inl e, s)"

definition await :: "('a, 'st) async \<Rightarrow> ('a \<Rightarrow> ('b, 'st) async) \<Rightarrow> ('b, 'st) async" where
  "await m k s = (case m s of (Inl e, s') \<Rightarrow> (Inl e, s') | (Inr a, s') \<Rightarrow> k a s')"

text \<open>A synchronous call that may throw.\<close>

definition sync :: "error + 'a \<Rightarrow> ('a, 'st) async" where
  "sync r s = (r, s)"

text \<open>\<open>db.query(sql, params)\<close>, giving \<open>result.rows\<close>.\<close>

definition dbQuery :: "'st env \<Rightarrow> string \<Rightarrow> jsval list \<Rightarrow> (jsobj list, 'st) async" where
  "dbQuery env sql params s =
     (case db_query env sql params s of
        (Inl m, s') \<Rightarrow> (Inl (DbError m), s')
      | (Inr rows, s') \<Rightarrow> (Inr rows, s'))"

text \<open>\<open>bcrypt.hash(password, BCRYPT_WORK_FACTOR)\<close>.\<close>

definition hash :: "'st env \<Rightarrow> jsval \<Rightarrow> (jsval, 'st) async" where
  "hash env password s =
     (case bcrypt_hash env password of
        Inl m \<Rightarrow> (Inl (BcryptError m), s)
      | Inr h \<Rightarrow> (Inr (JStr h), s))"

text \<open>\<open>rows[0]\<close>: the first row, or \<open>undefined\<close>.\<close>

definition first_row :: "jsobj list \<Rightarrow> jsval" where
  "first_row rows = (case rows of [] \<Rightarrow> JUndefined | r # _ \<Rightarrow> JObj r)"

text \<open>The own properties of a value, as \<open>{...v}\<close> copies them.\<close>

definition js_props :: "jsval \<Rightarrow> jsobj" where
  "js_props v = (case v of JObj ps \<Rightarrow> ps | _ \<Rightarrow> [])"

section \<open>models/user\<close>

text \<open>
  The statements are the source's, with each run of white space in the text of the source
  written as one space.
\<close>

definition sql_select_user :: string where
  "sql_select_user =
     ''SELECT username, first_name AS \"firstName\", last_name AS \"lastName\", email, is_admin AS \"isAdmin\" FROM users WHERE username = $1''"

definition sql_select_all_users :: string where
  "sql_select_all_users =
     ''SELECT username, first_name AS \"firstName\", last_name AS \"lastName\", email, is_admin AS \"isAdmin\" FROM users ORDER BY username''"

definition sql_select_username :: string where
  "sql_select_username = ''SELECT username FROM users WHERE username = $1''"

definition sql_insert_user :: string where
  "sql_insert_user =
     ''INSERT INTO users (username, password, first_name, last_name, email, is_admin) VALUES ($1, $2, $3, $4, $5, $6) RETURNING username, first_name AS \"firstName\", last_name AS \"lastName\", email, is_admin AS \"isAdmin\"''"

definition sql_select_job :: string where
  "sql_select_job = ''SELECT id FROM jobs WHERE id = $1''"

definition sql_insert_application :: string where
  "sql_insert_application = ''INSERT INTO applications (username, job_id) VALUES ($1, $2)''"

definition sql_select_applications :: string where
  "sql_select_applications = '' SELECT job_id FROM applications WHERE username = $1''"

definition sql_delete_user :: string where
  "sql_delete_user = ''DELETE FROM users WHERE username = $1 RETURNING username''"

definition sql_update_user :: "string \<Rightarrow> string \<Rightarrow> string" where
  "sql_update_user setColsText usernameVarIdx =
     ''UPDATE users SET '' @ setColsText @ '' WHERE username = '' @ usernameVarIdx
       @ '' RETURNING username, first_name AS \"firstName\", last_name AS \"lastName\", email, is_admin AS \"isAdmin\"''"

definition User_register :: "'st env \<Rightarrow> jsobj \<Rightarrow> (jsval, 'st) async" where
  "User_register env data =
     (let username = js_get data ''username''; password = js_get data ''password'';
          firstName = js_get data ''firstName''; lastName = js_get data ''lastName'';
          email = js_get data ''email''; isAdmin = js_get data ''isAdmin''
      in await (dbQuery env sql_select_username [username]) (\<lambda>duplicateCheck.
           if truthy (first_row duplicateCheck)
           then reject (BadRequestError (Text (''Duplicate username: '' @ js_toString username)))
           else await (hash env password) (\<lambda>hashedPassword.
                await (dbQuery env sql_insert_user
                         [username, hashedPassword, firstName, lastName, email, isAdmin])
                  (\<lambda>result. let user = first_row result in resolve user))))"

definition User_findAll :: "'st env \<Rightarrow> (jsval, 'st) async" where
  "User_findAll env =
     await (dbQuery env sql_select_all_users []) (\<lambda>result. resolve (JArr (map JObj result)))"

definition User_getUserApplications :: "'st env \<Rightarrow> jsval \<Rightarrow> (jsval, 'st) async" where
  "User_getUserApplications env username =
     await (dbQuery env sql_select_applications [username]) (\<lambda>result.
       let discarded = map (\<lambda>r. js_get r ''job_id'') result
       in resolve JUndefined)"

definition User_get :: "'st env \<Rightarrow> jsval \<Rightarrow> (jsval, 'st) async" where
  "User_get env username =
     await (dbQuery env sql_select_user [username]) (\<lambda>userRes.
       let user = first_row userRes in
       if \<not> truthy user then reject (NotFoundError (''No user: '' @ js_toString username))
       else await (User_getUserApplications env username) (\<lambda>jobIds.
              resolve (JObj (js_set (js_props user) ''josb'' jobIds))))"

text \<open>
  The statement and the parameters that \<open>User.update\<close> hands to \<open>db.query\<close>, from the data
  whose password, if any, is hashed already.
\<close>

definition update_statement :: "jsval \<Rightarrow> jsobj \<Rightarrow> error + string \<times> jsval list" where
  "update_statement username data =
     (case sqlForPartialUpdate data
             [(''firstName'', JStr ''first_name''), (''lastName'', JStr ''last_name''),
              (''isAdmin'', JStr ''is_admin'')] of
        Inl e \<Rightarrow> Inl e
      | Inr r \<Rightarrow>
          let usernameVarIdx = ''$'' @ decimal (length (values r) + 1);
              querySql = sql_update_user (setCols r) usernameVarIdx
          in Inr (querySql, values r @ [username]))"

text \<open>The first lines of \<open>User.update\<close>: a truthy password is replaced by its hash.\<close>

definition hash_password :: "'st env \<Rightarrow> jsobj \<Rightarrow> (jsobj, 'st) async" where
  "hash_password env data =
     (if truthy (js_get data ''password'')
      then await (hash env (js_get data ''password'')) (\<lambda>h. resolve (js_set data ''password'' h))
      else resolve data)"

definition User_update :: "'st env \<Rightarrow> jsval \<Rightarrow> jsobj \<Rightarrow> (jsval, 'st) async" where
  "User_update env username data0 =
     await (hash_password env data0) (\<lambda>data.
     await (sync (update_statement username data)) (\<lambda>(querySql, params).
     await (dbQuery env querySql params) (\<lambda>result.
       let user = first_row result in
       if \<not> truthy user then reject (NotFoundError (''No user: '' @ js_toString username))
       else resolve (JObj (js_delete (js_props user) ''password'')))))"

definition User_applyForJob :: "'st env \<Rightarrow> jsval \<Rightarrow> jsval \<Rightarrow> (jsval, 'st) async" where
  "User_applyForJob env username jobId =
     await (dbQuery env sql_select_username [username]) (\<lambda>userCheck.
       if \<not> truthy (first_row userCheck)
       then reject (NotFoundError (''No user: '' @ js_toString username))
       else await (dbQuery env sql_select_job [jobId]) (\<lambda>jobCheck.
         if \<not> truthy (first_row jobCheck)
         then reject (NotFoundError (''No job: '' @ js_toString jobId))
         else await (dbQuery env sql_insert_application [username, jobId]) (\<lambda>inserted.
                resolve (JObj [(''applied'', jobId)]))))"

definition User_remove :: "'st env \<Rightarrow> jsval \<Rightarrow> (jsval, 'st) async" where
  "User_remove env username =
     await (dbQuery env sql_delete_user [username]) (\<lambda>result.
       let user = first_row result in
       if \<not> truthy user then reject (NotFoundError (''No user: '' @ js_toString username))
       else resolve JUndefined)"

section \<open>Requests and responses\<close>

text \<open>
  What a handler reads of a request: \<open>res.locals.user\<close>, the payload of a verified token that
  \<open>authenticateJWT\<close> left there (\<open>None\<close> for a request without one: the anonymous identity),
  the route parameters \<open>req.params\<close>, the query string \<open>req.query\<close> and the parsed body. A
  handler answers with \<open>res.status(n).json(v)\<close> or hands an error to \<open>next\<close>.
\<close>

record request =
  locals_user :: "jsobj option"
  params :: jsobj
  query :: jsobj
  body :: jsobj

record response =
  status :: nat
  json :: jsval

text \<open>
  \<open>a !== b\<close> is the negation of this. Two objects or arrays are equal when they are the
  same object; the operands compared here come from a token and from a request, and are
  never one object.
\<close>

fun strict_eq :: "jsval \<Rightarrow> jsval \<Rightarrow> bool" where
  "strict_eq JUndefined JUndefined = True"
| "strict_eq JNull JNull = True"
| "strict_eq (JBool a) (JBool b) = (a = b)"
| "strict_eq (JNum a) (JNum b) = (a = b)"
| "strict_eq (JStr a) (JStr b) = (a = b)"
| "strict_eq (JFun a) (JFun b) = (a = b)"
| "strict_eq _ _ = False"

text \<open>
  Modelled from the spec: \<open>ensureLoggedIn\<close> of \<open>middleware/auth\<close>, which is not among the
  sources. The spec's class Authenticated: allow iff the identity claim is not anonymous,
  else deny with "authentication required". On success the handler finds the identity in
  \<open>res.locals.user\<close>.
\<close>

definition ensureLoggedIn :: "request \<Rightarrow> (jsobj, 'st) async" where
  "ensureLoggedIn req =
     (case locals_user req of
        None \<Rightarrow> reject (UnauthorizedError ''authentication required'')
      | Some user \<Rightarrow> resolve user)"

section \<open>routes/users\<close>

definition users_post :: "'st env \<Rightarrow> request \<Rightarrow> (response, 'st) async" where
  "users_post env req =
     await (ensureLoggedIn req) (\<lambda>user.
       if \<not> truthy (js_get user ''isAdmin'')
       then reject (UnauthorizedError ''Admin privileges required'')
       else
         let errs = validate env ''userNew'' (body req) in
         if errs \<noteq> [] then reject (BadRequestError (Texts errs))
         else await (User_register env (body req)) (\<lambda>user.
                let token = createToken env user
                in resolve \<lparr> status = 201, json = JObj [(''user'', user), (''token'', token)] \<rparr>))"

definition users_get_all :: "'st env \<Rightarrow> request \<Rightarrow> (response, 'st) async" where
  "users_get_all env req =
     await (ensureLoggedIn req) (\<lambda>user.
       if \<not> truthy (js_get user ''isAdmin'')
       then reject (UnauthorizedError ''Admin privileges required'')
       else await (User_findAll env) (\<lambda>users.
              resolve \<lparr> status = 200, json = JObj [(''users'', users)] \<rparr>))"

definition users_get :: "'st env \<Rightarrow> request \<Rightarrow> (response, 'st) async" where
  "users_get env req =
     await (ensureLoggedIn req) (\<lambda>currentUser.
       let username = js_get (params req) ''username'' in
       if \<not> strict_eq (js_get currentUser ''username'') username
          \<and> \<not> truthy (js_get currentUser ''isAdmin'')
       then reject (UnauthorizedError ''You do not have permission to view this user'')
       else await (User_get env (js_get (params req) ''username'')) (\<lambda>user.
              resolve \<lparr> status = 200, json = JObj [(''user'', user)] \<rparr>))"

definition users_patch :: "'st env \<Rightarrow> request \<Rightarrow> (response, 'st) async" where
  "users_patch env req =
     await (ensureLoggedIn req) (\<lambda>currentUser.
       let username = js_get (params req) ''username'' in
       if \<not> strict_eq (js_get currentUser ''username'') username
          \<and> \<not> truthy (js_get currentUser ''isAdmin'')
       then reject (UnauthorizedError ''You do not have permission to update this user'')
       else
         let errs = validate env ''userUpdate'' (body req) in
         if errs \<noteq> [] then reject (BadRequestError (Texts errs))
         else await (User_update env (js_get (params req) ''username'') (body req)) (\<lambda>user.
                resolve \<lparr> status = 200, json = JObj [(''user'', user)] \<rparr>))"

definition users_apply :: "'st env \<Rightarrow> request \<Rightarrow> (response, 'st) async" where
  "users_apply env req =
     await (ensureLoggedIn req) (\<lambda>currentUser.
       let username = js_get (params req) ''username'';
           jobIdParam = js_get (params req) ''id'';
           jobId = parseInt10 env jobIdParam
       in
       if \<not> strict_eq (js_get currentUser ''username'') username
          \<and> \<not> truthy (js_get currentUser ''isAdmin'')
       then reject (UnauthorizedError
                      ''You do not have permission to apply for jobs for this user.'')
       else await (User_applyForJob env username jobId) (\<lambda>application.
              resolve \<lparr> status = 200, json = JObj [(''applied'', jobId)] \<rparr>))"

definition users_delete :: "'st env \<Rightarrow> request \<Rightarrow> (response, 'st) async" where
  "users_delete env req =
     await (ensureLoggedIn req) (\<lambda>currentUser.
       let username = js_get (params req) ''username'' in
       if \<not> strict_eq (js_get currentUser ''username'') username
          \<and> \<not> truthy (js_get currentUser ''isAdmin'')
       then reject (UnauthorizedError ''You do not have permission to delete this user'')
       else await (User_remove env (js_get (params req) ''username'')) (\<lambda>removed.
              resolve \<lparr> status = 200,
                        json = JObj [(''deleted'', js_get (params req) ''username'')] \<rparr>))"

section \<open>routes/companies: GET /\<close>

text \<open>
  The handler takes the three filters from \<open>req.params\<close>. The route's path is \<open>/\<close>, which
  has no parameter: Express hands this handler an empty \<open>req.params\<close>, and the query string
  of the request in \<open>req.query\<close>.
\<close>

definition companies_get :: "'st env \<Rightarrow> request \<Rightarrow> (response, 'st) async" where
  "companies_get env req =
     (let nameLike = js_get (params req) ''nameLike'';
          minEmployees = js_get (params req) ''minEmployees'';
          maxEmployees = js_get (params req) ''maxEmployees''
      in
      if minEmployees \<noteq> JUndefined \<and> maxEmployees \<noteq> JUndefined
         \<and> plus_gt env minEmployees maxEmployees
      then reject (BadRequestError (Text ''minEmployees cannot be greater than maxEmployees''))
      else await (company_findAll env
                    [(''nameLike'', nameLike), (''minEmployees'', minEmployees),
                     (''maxEmployees'', maxEmployees)])
             (\<lambda>companies. resolve \<lparr> status = 200, json = JObj [(''companies'', companies)] \<rparr>))"

section \<open>Reading a placeholder back\<close>

text \<open>
  The index a fragment \<open>"col"=$k\<close> carries: the decimal number after its last dollar sign.
\<close>

definition digit_val :: "char \<Rightarrow> nat" where
  "digit_val c = of_char c - 48"

definition nat_of_string :: "string \<Rightarrow> nat" where
  "nat_of_string s = foldl (\<lambda>acc c. acc * 10 + digit_val c) 0 s"

definition after_last_dollar :: "string \<Rightarrow> string" where
  "after_last_dollar s = rev (takeWhile (\<lambda>c. c \<noteq> CHR ''$'') (rev s))"

definition placeholder_index :: "string \<Rightarrow> nat" where
  "placeholder_index frag = nat_of_string (after_last_dollar frag)"

text \<open>
  The placeholders that a clause contains, in order, as the store reads its text: what
  stands between two double quotes is an identifier, and outside an identifier a dollar sign
  followed by decimal digits is a placeholder. (A doubled quote inside an identifier closes
  and reopens it, which reads the same.)
\<close>

datatype lexing = Outside | Quoted | Dollar | Param nat

definition is_digit :: "char \<Rightarrow> bool" where
  "is_digit c = (c \<in> set ''0123456789'')"

definition next_outside :: "char \<Rightarrow> lexing" where
  "next_outside c = (if c = CHR 0x22 then Quoted else if c = CHR ''$'' then Dollar else Outside)"

fun scan :: "lexing \<Rightarrow> string \<Rightarrow> nat list" where
  "scan Outside [] = []"
| "scan Quoted [] = []"
| "scan Dollar [] = []"
| "scan (Param n) [] = [n]"
| "scan Outside (c # cs) = scan (next_outside c) cs"
| "scan Quoted (c # cs) = scan (if c = CHR 0x22 then Outside else Quoted) cs"
| "scan Dollar (c # cs) =
     (if is_digit c then scan (Param (digit_val c)) cs else scan (next_outside c) cs)"
| "scan (Param n) (c # cs) =
     (if is_digit c then scan (Param (n * 10 + digit_val c)) cs
      else n # scan (next_outside c) cs)"

definition placeholders :: "string \<Rightarrow> nat list" where
  "placeholders clause = scan Outside clause"

section \<open>Outcomes\<close>

text \<open>The outcome of a call is \<open>Unauthorized\<close>, \<open>NotFound\<close>, or a \<open>BadRequest\<close>.\<close>

definition is_unauthorized :: "error + 'a \<Rightarrow> bool" where
  "is_unauthorized r = (case r of Inl (UnauthorizedError m) \<Rightarrow> True | _ \<Rightarrow> False)"

definition is_not_found :: "error + 'a \<Rightarrow> bool" where
  "is_not_found r = (case r of Inl (NotFoundError m) \<Rightarrow> True | _ \<Rightarrow> False)"

definition is_bad_request :: "error + 'a \<Rightarrow> bool" where
  "is_bad_request r = (case r of Inl (BadRequestError m) \<Rightarrow> True | _ \<Rightarrow> False)"

text \<open>
  The decision of the guard that the handlers of \<open>GET\<close>, \<open>PATCH\<close>, \<open>DELETE /users/:username\<close>
  and \<open>POST /users/:username/jobs/:id\<close> each write out: the identity is the owner named in
  the path, or an administrator.
\<close>

definition self_or_admin :: "request \<Rightarrow> bool" where
  "self_or_admin req =
     (case locals_user req of
        None \<Rightarrow> False
      | Some user \<Rightarrow>
          strict_eq (js_get user ''username'') (js_get (params req) ''username'')
          \<or> truthy (js_get user ''isAdmin''))"

text \<open>A call that never ends in \<open>Unauthorized\<close>, whatever the store.\<close>

definition never_unauthorized :: "('a, 'st) async \<Rightarrow> bool" where
  "never_unauthorized m = (\<forall>s. \<not> is_unauthorized (fst (m s)))"

section \<open>A store for the user model\<close>

text \<open>
  Modelled from the spec: the persisted state that the schema of the repository (not among
  the sources) lays out. Account records with a unique subject key, position records with a
  numeric id, and application records whose key is the pair of subject and position id, with
  no further attribute. The store answers the statements of \<open>User.get\<close>, \<open>User.findAll\<close>,
  \<open>User.applyForJob\<close>, \<open>User.getUserApplications\<close> and \<open>User.remove\<close>; an application whose
  pair is stored already violates the key, and so does one whose subject or position is
  missing. It refuses any other statement.
\<close>

record store =
  users :: "jsobj list"
  jobs :: "jsobj list"
  applications :: "(jsval \<times> jsval) list"

text \<open>
  Modelled from the spec: the columns of an account record that the statements of the user
  model select, under the names they give them.
\<close>

definition user_columns :: "jsobj \<Rightarrow> jsobj" where
  "user_columns row =
     [(''username'', js_get row ''username''), (''firstName'', js_get row ''first_name''),
      (''lastName'', js_get row ''last_name''), (''email'', js_get row ''email''),
      (''isAdmin'', js_get row ''is_admin'')]"

text \<open>
  Modelled from the spec: the store's answer to a statement and its parameters, with the
  uniqueness of the composite key of an application record and its references to the
  account and the position.
\<close>

definition store_query :: "string \<Rightarrow> jsval list \<Rightarrow> store \<Rightarrow> (string + jsobj list) \<times> store" where
  "store_query sql ps st =
     (if sql = sql_select_user \<and> length ps = 1 then
        (Inr (map user_columns (filter (\<lambda>row. js_get row ''username'' = ps ! 0) (users st))), st)
      else if sql = sql_select_all_users \<and> ps = [] then
        (Inr (map user_columns (users st)), st)
      else if sql = sql_select_username \<and> length ps = 1 then
        (Inr (map (\<lambda>row. [(''username'', js_get row ''username'')])
                (filter (\<lambda>row. js_get row ''username'' = ps ! 0) (users st))), st)
      else if sql = sql_select_job \<and> length ps = 1 then
        (Inr (map (\<lambda>row. [(''id'', js_get row ''id'')])
                (filter (\<lambda>row. js_get row ''id'' = ps ! 0) (jobs st))), st)
      else if sql = sql_insert_application \<and> length ps = 2 then
        (if (ps ! 0, ps ! 1) \<in> set (applications st) then
           (Inl ''duplicate key value violates unique constraint \"applications_pkey\"'', st)
         else if ps ! 0 \<in> set (map (\<lambda>row. js_get row ''username'') (users st))
                 \<and> ps ! 1 \<in> set (map (\<lambda>row. js_get row ''id'') (jobs st)) then
           (Inr [], st\<lparr> applications := applications st @ [(ps ! 0, ps ! 1)] \<rparr>)
         else
           (Inl ''insert or update on table \"applications\" violates foreign key constraint'', st))
      else if sql = sql_select_applications \<and> length ps = 1 then
        (Inr (map (\<lambda>a. [(''job_id'', snd a)])
                (filter (\<lambda>a. fst a = ps ! 0) (applications st))), st)
      else if sql = sql_delete_user \<and> length ps = 1 then
        (Inr (map (\<lambda>row. [(''username'', js_get row ''username'')])
                (filter (\<lambda>row. js_get row ''username'' = ps ! 0) (users st))),
         st\<lparr> users := filter (\<lambda>row. js_get row ''username'' \<noteq> ps ! 0) (users st),
             applications := filter (\<lambda>a. fst a \<noteq> ps ! 0) (applications st) \<rparr>)
      else (Inl ''statement not understood'', st))"

section \<open>Filter Builder\<close>

text \<open>
  Modelled from the spec: the filter construction of the list routes. \<open>models/company\<close>,
  \<open>models/job\<close> and \<open>routes/jobs\<close>, which build the predicates of a list query, are not
  among the sources. The spec's \<open>buildFilter\<close>: a filter spec holds an optional text filter,
  an optional minimum, an optional maximum and an optional boolean flag; a minimum above the
  maximum fails with InvalidInput before any clause is built; each filter present, in the
  order text, minimum, maximum, flag, appends one predicate with the next placeholder and its
  value; the predicates join with \<open>AND\<close>; a text filter is wrapped in wildcards for a
  case-insensitive match, the bounds are inclusive, and a flag of value false is treated as
  absent.
\<close>

record filter_spec =
  text_filter :: "string option"
  minimum :: "int option"
  maximum :: "int option"
  flag :: "bool option"

record filter_columns =
  text_column :: string
  number_column :: string
  flag_column :: string

text \<open>
  Modelled from the spec: the predicates of the filters present, in the spec's order, each
  with its column and operator and the value that its placeholder binds. A flag of value
  false is treated as absent.
\<close>

definition present_filters :: "filter_columns \<Rightarrow> filter_spec \<Rightarrow> (string \<times> jsval) list" where
  "present_filters cols f =
     (case text_filter f of
        None \<Rightarrow> []
      | Some t \<Rightarrow> [(text_column cols @ '' ILIKE '', JStr (''%'' @ t @ ''%''))])
     @ (case minimum f of None \<Rightarrow> [] | Some lo \<Rightarrow> [(number_column cols @ '' >= '', JNum lo)])
     @ (case maximum f of None \<Rightarrow> [] | Some hi \<Rightarrow> [(number_column cols @ '' <= '', JNum hi)])
     @ (case flag f of
          None \<Rightarrow> []
        | Some b \<Rightarrow> if b then [(flag_column cols @ '' = '', JBool True)] else [])"

text \<open>
  Modelled from the spec: the validation of the Filter Builder. Both bounds present and the
  minimum above the maximum.
\<close>

definition invalid_range :: "filter_spec \<Rightarrow> bool" where
  "invalid_range f =
     (case (minimum f, maximum f) of (Some lo, Some hi) \<Rightarrow> hi < lo | _ \<Rightarrow> False)"

text \<open>
  Modelled from the spec: \<open>buildFilter\<close>. The validation first; then the clause, each
  predicate with the next placeholder index, joined by \<open>AND\<close>, and the values in the same
  order. With no filter present the clause and the values are empty.
\<close>

definition buildFilter :: "filter_columns \<Rightarrow> filter_spec \<Rightarrow> error + string \<times> jsval list" where
  "buildFilter cols f =
     (if invalid_range f
      then Inl (BadRequestError (Text ''minimum cannot be greater than maximum''))
      else
        let preds = present_filters cols f;
            fragments = map (\<lambda>(p, idx). fst p @ ''$'' @ decimal (idx + 1))
                          (zip preds [0..<length preds])
        in Inr (join '' AND '' fragments, map snd preds))"

text \<open>
  Modelled from the spec: the rows that a list query returns, by the meaning the spec gives
  each filter. A row shows the three columns that the filters read.
\<close>

record listed_row =
  row_text :: string
  row_number :: int
  row_flag :: bool

text \<open>
  Modelled from the spec: case-insensitive, unanchored containment of the filter text in the
  stored text.
\<close>

definition lower_char :: "char \<Rightarrow> char" where
  "lower_char c =
     (let n = (of_char c :: nat) in if 65 \<le> n \<and> n \<le> 90 then char_of (n + 32) else c)"

fun contains :: "string \<Rightarrow> string \<Rightarrow> bool" where
  "contains t [] = (t = [])"
| "contains t (x # xs) = (take (length t) (x # xs) = t \<or> contains t xs)"

text \<open>
  Modelled from the spec: the rows a filter spec admits. Inclusive bounds; a flag of value
  true restricts to the rows where the flag holds, a flag that is false or absent imposes
  nothing.
\<close>

definition satisfies :: "filter_spec \<Rightarrow> listed_row \<Rightarrow> bool" where
  "satisfies f r =
     ((case text_filter f of
         None \<Rightarrow> True
       | Some t \<Rightarrow> contains (map lower_char t) (map lower_char (row_text r)))
      \<and> (case minimum f of None \<Rightarrow> True | Some lo \<Rightarrow> lo \<le> row_number r)
      \<and> (case maximum f of None \<Rightarrow> True | Some hi \<Rightarrow> row_number r \<le> hi)
      \<and> (case flag f of None \<Rightarrow> True | Some b \<Rightarrow> if b then row_flag r else True))"

text \<open>Modelled from the spec: a list query, which fails on an invalid filter spec.\<close>

definition list_rows :: "filter_spec \<Rightarrow> listed_row list \<Rightarrow> error + listed_row list" where
  "list_rows f rows =
     (if invalid_range f
      then Inl (BadRequestError (Text ''minimum cannot be greater than maximum''))
      else Inr (filter (satisfies f) rows))"

text \<open>
  Rows for the filters on title, salary and equity: the two jobs of the route tests, which
  hold equity, and a third that holds none.
\<close>

definition job_rows :: "listed_row list" where
  "job_rows =
     [\<lparr> row_text = ''Job1'', row_number = 50000, row_flag = True \<rparr>,
      \<lparr> row_text = ''Job2'', row_number = 60000, row_flag = True \<rparr>,
      \<lparr> row_text = ''Job3'', row_number = 70000, row_flag = False \<rparr>]"

definition job_columns :: filter_columns where
  "job_columns = \<lparr> text_column = ''title'', number_column = ''salary'', flag_column = ''has_equity'' \<rparr>"

definition no_filter :: filter_spec where
  "no_filter = \<lparr> text_filter = None, minimum = None, maximum = None, flag = None \<rparr>"

section \<open>Examples\<close>

text \<open>
  \<open>+a > +b\<close> on the values this development writes down: a string of decimal digits and a
  number convert to that number, the empty string and \<open>null\<close> to 0, a boolean to 0 or 1, and
  what does not convert to a number compares false.
\<close>

definition to_number :: "jsval \<Rightarrow> int option" where
  "to_number v =
     (case v of
        JNum n \<Rightarrow> Some n
      | JNull \<Rightarrow> Some 0
      | JBool b \<Rightarrow> Some (if b then 1 else 0)
      | JStr s \<Rightarrow> (if list_all (\<lambda>c. c \<in> set ''0123456789'') s
                  then Some (int (nat_of_string s)) else None)
      | _ \<Rightarrow> None)"

definition example_plus_gt :: "jsval \<Rightarrow> jsval \<Rightarrow> bool" where
  "example_plus_gt a b =
     (case (to_number a, to_number b) of (Some x, Some y) \<Rightarrow> y < x | _ \<Rightarrow> False)"

text \<open>
  \<open>parseInt(v, 10)\<close> on the values this development writes down: the number that the leading
  decimal digits of a string spell, \<open>NaN\<close> when it starts with none.
\<close>

definition example_parseInt :: "jsval \<Rightarrow> jsval" where
  "example_parseInt v =
     (case v of
        JStr s \<Rightarrow>
          (let ds = takeWhile (\<lambda>c. c \<in> set ''0123456789'') s
           in if ds = [] then JNaN else JNum (int (nat_of_string ds)))
      | JNum n \<Rightarrow> JNum n
      | _ \<Rightarrow> JNaN)"

text \<open>A store with no rows, and collaborators that accept everything.\<close>

definition empty_env :: "unit env" where
  "empty_env =
     \<lparr> db_query = (\<lambda>sql ps s. (Inr [], s)),
       bcrypt_hash = (\<lambda>p. Inr ''hashed''),
       validate = (\<lambda>schema instance. []),
       createToken = (\<lambda>user. JStr ''token''),
       parseInt10 = example_parseInt,
       plus_gt = example_plus_gt,
       company_findAll = (\<lambda>filters s. (Inr (JArr []), s)) \<rparr>"

text \<open>
  Requests for \<open>/users/u1\<close>: from \<open>u1\<close>, who is no administrator; from \<open>u2\<close>, who is none
  either; from an administrator; and without a token.
\<close>

definition owner_request :: request where
  "owner_request =
     \<lparr> locals_user = Some [(''username'', JStr ''u1''), (''isAdmin'', JBool False)],
       params = [(''username'', JStr ''u1'')], query = [], body = [(''firstName'', JStr ''New'')] \<rparr>"

definition stranger_request :: request where
  "stranger_request =
     \<lparr> locals_user = Some [(''username'', JStr ''u2''), (''isAdmin'', JBool False)],
       params = [(''username'', JStr ''u1'')], query = [], body = [(''firstName'', JStr ''New'')] \<rparr>"

definition admin_request :: request where
  "admin_request =
     \<lparr> locals_user = Some [(''username'', JStr ''admin''), (''isAdmin'', JBool True)],
       params = [(''username'', JStr ''u1'')], query = [], body = [(''firstName'', JStr ''New'')] \<rparr>"

definition anonymous_request :: request where
  "anonymous_request =
     \<lparr> locals_user = None,
       params = [(''username'', JStr ''u1'')], query = [], body = [(''firstName'', JStr ''New'')] \<rparr>"

text \<open>The collaborators over that store.\<close>

definition store_env :: "store env" where
  "store_env =
     \<lparr> db_query = store_query,
       bcrypt_hash = (\<lambda>p. Inr ''hashed''),
       validate = (\<lambda>schema instance. []),
       createToken = (\<lambda>user. JStr ''token''),
       parseInt10 = example_parseInt,
       plus_gt = example_plus_gt,
       company_findAll = (\<lambda>filters s. (Inr (JArr []), s)) \<rparr>"

text \<open>A store with the user \<open>u1\<close>, the job 1 and no application.\<close>

definition store0 :: store where
  "store0 =
     \<lparr> users = [[(''username'', JStr ''u1''), (''password'', JStr ''hashed''),
                 (''first_name'', JStr ''U1F''), (''last_name'', JStr ''U1L''),
                 (''email'', JStr ''user1@user.com''), (''is_admin'', JBool False)]],
       jobs = [[(''id'', JNum 1), (''title'', JStr ''Job1'')]],
       applications = [] \<rparr>"

text \<open>The same store once \<open>u1\<close> has applied for the job 1.\<close>

definition store1 :: store where
  "store1 = store0\<lparr> applications := [(JStr ''u1'', JNum 1)] \<rparr>"


text \<open>
  The request \<open>GET /companies?minEmployees=5&maxEmployees=1\<close>, and the same filters as route
  parameters, which no request to this route carries.
\<close>

definition inverted_range_request :: request where
  "inverted_range_request =
     \<lparr> locals_user = None, params = [],
       query = [(''minEmployees'', JStr ''5''), (''maxEmployees'', JStr ''1'')], body = [] \<rparr>"

definition inverted_range_in_params :: request where
  "inverted_range_in_params =
     \<lparr> locals_user = None,
       params = [(''minEmployees'', JStr ''5''), (''maxEmployees'', JStr ''1'')],
       query = [], body = [] \<rparr>"

text \<open>The request \<open>POST /users/u1/jobs/1\<close> from \<open>u1\<close>.\<close>

definition apply_request :: request where
  "apply_request =
     \<lparr> locals_user = Some [(''username'', JStr ''u1''), (''isAdmin'', JBool False)],
       params = [(''username'', JStr ''u1''), (''id'', JStr ''1'')], query = [], body = [] \<rparr>"

section \<open>Properties of sqlForPartialUpdate\<close>

lemma digit_cases: "d < 10 \<Longrightarrow> d \<in> {0,1,2,3,4,5,6,7,8,9::nat}"
  by auto

lemma digit_val_digit_char: "d < 10 \<Longrightarrow> digit_val (digit_char d) = d"
  using digit_cases[of d] by (auto simp: digit_val_def digit_char_def)

lemma digit_char_not_dollar: "d < 10 \<Longrightarrow> digit_char d \<noteq> CHR ''$''"
  using digit_cases[of d] by (auto simp: digit_char_def)

lemma nat_of_string_snoc: "nat_of_string (s @ [c]) = nat_of_string s * 10 + digit_val c"
  by (simp add: nat_of_string_def)

lemma nat_of_string_decimal: "nat_of_string (decimal n) = n"
proof (induction n rule: decimal.induct)
  case (1 n)
  have step: "nat_of_string (decimal n)
      = nat_of_string (if 10 \<le> n then decimal (n div 10) else []) * 10 + n mod 10"
    by (subst decimal.simps) (simp add: nat_of_string_snoc digit_val_digit_char)
  show ?case
  proof (cases "10 \<le> n")
    case True
    with 1 step show ?thesis by simp
  next
    case False
    with step show ?thesis by (simp add: nat_of_string_def)
  qed
qed

lemma decimal_no_dollar: "CHR ''$'' \<notin> set (decimal n)"
proof (induction n rule: decimal.induct)
  case (1 n)
  have last: "digit_char (n mod 10) \<noteq> CHR ''$''"
    by (rule digit_char_not_dollar) simp
  show ?case
  proof (cases "10 \<le> n")
    case True
    with 1 last show ?thesis by (subst decimal.simps) simp
  next
    case False
    with last show ?thesis by (subst decimal.simps) simp
  qed
qed

lemma after_last_dollar_append: "CHR ''$'' \<notin> set t \<Longrightarrow> after_last_dollar (s @ ''$'' @ t) = t"
proof -
  assume t: "CHR ''$'' \<notin> set t"
  have "takeWhile (\<lambda>c. c \<noteq> CHR ''$'') (rev t @ CHR ''$'' # rev s) = rev t"
    using t by (subst takeWhile_append2) auto
  then show ?thesis by (simp add: after_last_dollar_def)
qed

lemma placeholder_index_col_fragment: "placeholder_index (col_fragment jsToSql colName idx) = idx + 1"
proof -
  have "col_fragment jsToSql colName idx = (''\"'' @ js_toString (js_or (js_get jsToSql colName) (JStr colName)) @ ''\"='') @ ''$'' @ decimal (idx + 1)"
    by (simp add: col_fragment_def column_name_def)
  then show ?thesis
    unfolding placeholder_index_def
    by (simp only: after_last_dollar_append[OF decimal_no_dollar] nat_of_string_decimal)
qed

lemma sqlForPartialUpdate_nonempty:
  assumes "dataToUpdate \<noteq> []"
  shows "sqlForPartialUpdate dataToUpdate jsToSql =
     Inr \<lparr> setCols = join '', '' (map (\<lambda>(colName, idx). col_fragment jsToSql colName idx)
                     (zip (map fst dataToUpdate) [0..<length dataToUpdate])),
           values = map snd dataToUpdate \<rparr>"
  using assms by (simp add: sqlForPartialUpdate_def Let_def)

lemma fragments_placeholders:
  "map placeholder_index
     (map (\<lambda>(colName, idx). col_fragment jsToSql colName idx) (zip keys [0..<length keys]))
   = [1..<length keys + 1]"
proof -
  let ?cols = "map (\<lambda>(colName, idx). col_fragment jsToSql colName idx) (zip keys [0..<length keys])"
  have "map placeholder_index ?cols = map Suc [0..<length keys]"
  proof (rule nth_equalityI)
    show "length (map placeholder_index ?cols) = length (map Suc [0..<length keys])" by simp
  next
    fix i assume "i < length (map placeholder_index ?cols)"
    then have i: "i < length keys" by simp
    then have "map placeholder_index ?cols ! i
        = placeholder_index (col_fragment jsToSql (keys ! i) i)"
      by simp
    also have "\<dots> = i + 1" by (rule placeholder_index_col_fragment)
    also have "\<dots> = map Suc [0..<length keys] ! i" using i by simp
    finally show "map placeholder_index ?cols ! i = map Suc [0..<length keys] ! i" .
  qed
  then show ?thesis by (simp add: map_Suc_upt)
qed

text \<open>
  Reading a clause whose column names hold no double quote: each name stays inside its
  identifier, and the placeholders read are those of the fragments, in order.
\<close>

lemma decimal_nonempty: "decimal n \<noteq> []"
  by (subst decimal.simps) simp

lemma digit_char_is_digit: "d < 10 \<Longrightarrow> is_digit (digit_char d)"
  using digit_cases[of d] by (auto simp: digit_char_def is_digit_def)

lemma decimal_digits: "c \<in> set (decimal n) \<Longrightarrow> is_digit c"
proof (induction n rule: decimal.induct)
  case (1 n)
  have last: "is_digit (digit_char (n mod 10))" by (rule digit_char_is_digit) simp
  from "1.prems" have "c \<in> set (if 10 \<le> n then decimal (n div 10) else []) \<or> c = digit_char (n mod 10)"
    by (subst (asm) decimal.simps) auto
  with 1 last show ?case by (auto split: if_splits)
qed

lemma scan_quoted_name:
  "CHR 0x22 \<notin> set name \<Longrightarrow> scan Quoted (name @ CHR 0x22 # rest) = scan Outside rest"
  by (induction name) auto

lemma scan_param_digits:
  "(\<And>c. c \<in> set ds \<Longrightarrow> is_digit c) \<Longrightarrow>
   scan (Param a) (ds @ rest) = scan (Param (foldl (\<lambda>acc c. acc * 10 + digit_val c) a ds)) rest"
  by (induction ds arbitrary: a) auto

lemma scan_dollar_decimal: "scan Dollar (decimal m @ rest) = scan (Param m) rest"
proof (cases "decimal m")
  case Nil
  then show ?thesis using decimal_nonempty[of m] by simp
next
  case (Cons d ds)
  have digits: "\<And>c. c \<in> set (d # ds) \<Longrightarrow> is_digit c"
    using decimal_digits[of _ m] Cons by simp
  have "scan Dollar (decimal m @ rest) = scan (Param (digit_val d)) (ds @ rest)"
    using Cons digits by simp
  also have "\<dots> = scan (Param (foldl (\<lambda>acc c. acc * 10 + digit_val c) (digit_val d) ds)) rest"
    by (rule scan_param_digits) (simp add: digits)
  also have "foldl (\<lambda>acc c. acc * 10 + digit_val c) (digit_val d) ds = nat_of_string (decimal m)"
    by (simp add: nat_of_string_def Cons)
  finally show ?thesis by (simp add: nat_of_string_decimal)
qed

lemma scan_fragment:
  assumes "CHR 0x22 \<notin> set name"
  shows "scan Outside (''\"'' @ name @ ''\"=$'' @ decimal m @ rest) = scan (Param m) rest"
proof -
  have "scan Outside (''\"'' @ name @ ''\"=$'' @ decimal m @ rest)
      = scan Quoted (name @ CHR 0x22 # (''=$'' @ decimal m @ rest))"
    by (simp add: next_outside_def)
  also have "\<dots> = scan Outside (''=$'' @ decimal m @ rest)"
    by (rule scan_quoted_name[OF assms])
  also have "\<dots> = scan Dollar (decimal m @ rest)"
    by (simp add: next_outside_def)
  also have "\<dots> = scan (Param m) rest" by (rule scan_dollar_decimal)
  finally show ?thesis .
qed

lemma scan_param_separator: "scan (Param m) ('', '' @ rest) = m # scan Outside rest"
  by (simp add: is_digit_def next_outside_def)

lemma scan_quoted_fragments:
  assumes "\<And>p. p \<in> set ps \<Longrightarrow> CHR 0x22 \<notin> set (fst p)"
  shows "scan Outside (join '', '' (map (\<lambda>(name, m). ''\"'' @ name @ ''\"=$'' @ decimal m) ps))
     = map snd ps"
  using assms
proof (induction ps rule: induct_list012)
  case 1
  then show ?case by simp
next
  case (2 p)
  obtain name m where p: "p = (name, m)" by (cases p)
  from "2.prems"[of p] p have q: "CHR 0x22 \<notin> set name" by simp
  have "scan Outside (''\"'' @ name @ ''\"=$'' @ decimal m @ []) = scan (Param m) []"
    by (rule scan_fragment[OF q])
  with p show ?case by simp
next
  case (3 p p' ps)
  obtain name m where p: "p = (name, m)" by (cases p)
  from "3.prems"[of p] p have q: "CHR 0x22 \<notin> set name" by simp
  let ?rest = "join '', '' (map (\<lambda>(name, m). ''\"'' @ name @ ''\"=$'' @ decimal m) (p' # ps))"
  have "scan Outside (''\"'' @ name @ ''\"=$'' @ decimal m @ ('', '' @ ?rest))
      = scan (Param m) ('', '' @ ?rest)"
    by (rule scan_fragment[OF q])
  also have "\<dots> = m # scan Outside ?rest" by (rule scan_param_separator)
  also have "scan Outside ?rest = map snd (p' # ps)"
    by (rule "3.IH"(2)) (simp add: "3.prems")
  finally show ?case using p by simp
qed

lemma fragments_as_pairs:
  "map (\<lambda>(colName, idx). col_fragment jsToSql colName idx) (zip keys [0..<length keys])
   = map (\<lambda>(name, m). ''\"'' @ name @ ''\"=$'' @ decimal m)
       (zip (map (column_name jsToSql) keys) (map Suc [0..<length keys]))"
  by (simp add: zip_map_map col_fragment_def column_name_def case_prod_beta)

lemma placeholders_of_fragments:
  assumes "\<And>k. k < length keys \<Longrightarrow> CHR 0x22 \<notin> set (column_name jsToSql (keys ! k))"
  shows "placeholders (join '', ''
       (map (\<lambda>(colName, idx). col_fragment jsToSql colName idx) (zip keys [0..<length keys])))
     = [1..<length keys + 1]"
proof -
  let ?ps = "zip (map (column_name jsToSql) keys) (map Suc [0..<length keys])"
  have names: "CHR 0x22 \<notin> set (fst p)" if "p \<in> set ?ps" for p
  proof -
    from that obtain k where k: "k < length ?ps" and pk: "p = ?ps ! k"
      by (auto simp: in_set_conv_nth)
    then have "k < length keys" by simp
    with pk assms[of k] show ?thesis by simp
  qed
  have "placeholders (join '', ''
       (map (\<lambda>(colName, idx). col_fragment jsToSql colName idx) (zip keys [0..<length keys])))
     = map snd ?ps"
    unfolding placeholders_def fragments_as_pairs
    by (rule scan_quoted_fragments) (rule names)
  also have "\<dots> = map Suc [0..<length keys]" by (simp add: map_snd_zip)
  finally show ?thesis by (simp add: map_Suc_upt)
qed

text \<open>
  C1. For every non-empty field map and every column mapping, \<open>sqlForPartialUpdate\<close> returns
  as many values as the field map has entries, and a \<open>setCols\<close> clause that is the
  comma-and-space join of as many fragments; the fragment at position \<open>k\<close> (from 0) is the
  quoted column of the \<open>k\<close>-th entry followed by \<open>=$\<close> and the decimal \<open>k + 1\<close>, and the value
  at position \<open>k\<close> is the value of the \<open>k\<close>-th entry. When no column name holds a double
  quote, the placeholders that the clause contains are exactly \<open>$1, ..., $n\<close>, in order.
\<close>

theorem sqlForPartialUpdate_placeholders:
  assumes "dataToUpdate \<noteq> []"
  shows "\<exists>r cols.
           sqlForPartialUpdate dataToUpdate jsToSql = Inr r
         \<and> length (values r) = length dataToUpdate
         \<and> setCols r = join '', '' cols
         \<and> length cols = length dataToUpdate
         \<and> map placeholder_index cols = [1..<length dataToUpdate + 1]
         \<and> (\<forall>k < length dataToUpdate.
               cols ! k = ''\"'' @ column_name jsToSql (fst (dataToUpdate ! k))
                 @ ''\"=$'' @ decimal (k + 1)
             \<and> placeholder_index (cols ! k) = k + 1
             \<and> values r ! k = snd (dataToUpdate ! k))
         \<and> ((\<forall>k < length dataToUpdate.
                 CHR 0x22 \<notin> set (column_name jsToSql (fst (dataToUpdate ! k))))
              \<longrightarrow> placeholders (setCols r) = [1..<length dataToUpdate + 1])"
proof -
  let ?n = "length dataToUpdate"
  let ?keys = "map fst dataToUpdate"
  let ?cols = "map (\<lambda>(colName, idx). col_fragment jsToSql colName idx)
                 (zip ?keys [0..<length ?keys])"
  let ?r = "\<lparr> setCols = join '', '' ?cols, values = map snd dataToUpdate \<rparr>"
  have run: "sqlForPartialUpdate dataToUpdate jsToSql = Inr ?r"
    using sqlForPartialUpdate_nonempty[OF assms, of jsToSql] by simp
  have vals: "length (values ?r) = ?n" by simp
  have clause: "setCols ?r = join '', '' ?cols" by simp
  have len: "length ?cols = ?n" by simp
  have all_idx: "map placeholder_index ?cols = [1..<?n + 1]"
    using fragments_placeholders[of jsToSql ?keys] by simp
  have nth: "?cols ! k = col_fragment jsToSql (fst (dataToUpdate ! k)) k" if "k < ?n" for k
    using that by simp
  have each: "\<forall>k < ?n.
       ?cols ! k = ''\"'' @ column_name jsToSql (fst (dataToUpdate ! k)) @ ''\"=$'' @ decimal (k + 1)
     \<and> placeholder_index (?cols ! k) = k + 1
     \<and> values ?r ! k = snd (dataToUpdate ! k)"
  proof (intro allI impI conjI)
    fix k assume k: "k < ?n"
    show "?cols ! k = ''\"'' @ column_name jsToSql (fst (dataToUpdate ! k))
        @ ''\"=$'' @ decimal (k + 1)"
      using nth[OF k] by (simp add: col_fragment_def column_name_def)
    show "placeholder_index (?cols ! k) = k + 1"
      by (simp only: nth[OF k] placeholder_index_col_fragment)
    show "values ?r ! k = snd (dataToUpdate ! k)" using k by simp
  qed
  have read: "(\<forall>k < ?n. CHR 0x22 \<notin> set (column_name jsToSql (fst (dataToUpdate ! k))))
      \<longrightarrow> placeholders (setCols ?r) = [1..<?n + 1]"
  proof
    assume quotes: "\<forall>k < ?n. CHR 0x22 \<notin> set (column_name jsToSql (fst (dataToUpdate ! k)))"
    have "placeholders (join '', '' ?cols) = [1..<length ?keys + 1]"
      by (rule placeholders_of_fragments) (use quotes in simp)
    then show "placeholders (setCols ?r) = [1..<?n + 1]" by simp
  qed
  show ?thesis
    by (rule exI[of _ ?r], rule exI[of _ ?cols])
       (intro conjI run vals clause len all_idx each read)
qed

theorem sqlForPartialUpdate_placeholders_witness:
  "\<exists>r. sqlForPartialUpdate [(''firstName'', JStr ''Aliya''), (''age'', JNum 32)]
          [(''firstName'', JStr ''first_name'')] = Inr r
      \<and> length (values r) = 2
      \<and> placeholders (setCols r) = [1, 2]"
proof -
  let ?d = "[(''firstName'', JStr ''Aliya''), (''age'', JNum 32)]"
  let ?m = "[(''firstName'', JStr ''first_name'')]"
  have ne: "?d \<noteq> []" by simp
  have names: "\<forall>k < length ?d. CHR 0x22 \<notin> set (column_name ?m (fst (?d ! k)))"
    by (auto simp: less_Suc_eq column_name_def js_get_def js_or_def objectPrototype_def)
  obtain r where
    run: "sqlForPartialUpdate ?d ?m = Inr r" and
    vals: "length (values r) = length ?d" and
    read: "(\<forall>k < length ?d. CHR 0x22 \<notin> set (column_name ?m (fst (?d ! k))))
             \<longrightarrow> placeholders (setCols r) = [1..<length ?d + 1]"
    using sqlForPartialUpdate_placeholders[OF ne, of ?m] by blast
  from read names have "placeholders (setCols r) = [1..<length ?d + 1]" by blast
  moreover have "[1..<length ?d + 1] = [1, 2]" by (simp add: upt_rec)
  ultimately show ?thesis using run vals by (intro exI[of _ r]) simp
qed

text \<open>
  The column name is put between the quotes as it is. A name that holds a double quote ends
  its identifier early, and what follows it is read as part of the clause: the field map
  with the one key \<open>a"=$7, "b\<close> gives one value and a clause with the placeholders \<open>$7\<close>
  and \<open>$1\<close>.
\<close>

theorem sqlForPartialUpdate_quote_in_name:
  "sqlForPartialUpdate [(''a\"=$7, \"b'', JNum 1)] []
     = Inr \<lparr> setCols = ''\"a\"=$7, \"b\"=$1'', values = [JNum 1] \<rparr>
   \<and> placeholders ''\"a\"=$7, \"b\"=$1'' = [7, 1]
   \<and> placeholders ''\"a\"=$7, \"b\"=$1'' \<noteq> [1]"
  by (simp add: sqlForPartialUpdate_def col_fragment_def column_name_def js_get_def js_or_def objectPrototype_def
        decimal.simps digit_char_def upt_rec placeholders_def next_outside_def is_digit_def
        digit_val_def)

text \<open>The example of the docstring and of the first test of \<open>sql.test.js\<close>.\<close>

lemma sqlForPartialUpdate_test_mapping:
  "sqlForPartialUpdate [(''firstName'', JStr ''Aliya''), (''age'', JNum 32)]
     [(''firstName'', JStr ''first_name'')]
   = Inr \<lparr> setCols = ''\"first_name\"=$1, \"age\"=$2'', values = [JStr ''Aliya'', JNum 32] \<rparr>"
  by (simp add: sqlForPartialUpdate_def col_fragment_def column_name_def js_get_def js_or_def objectPrototype_def
        decimal.simps digit_char_def upt_rec)

text \<open>
  C3. For every column mapping, \<open>sqlForPartialUpdate\<close> on the empty field map throws
  \<open>BadRequestError("No data")\<close>: the result is the error alone, with no clause and no
  values.
\<close>

theorem sqlForPartialUpdate_empty_data:
  "sqlForPartialUpdate [] jsToSql = Inl (BadRequestError (Text ''No data''))"
  by (simp add: sqlForPartialUpdate_def)

text \<open>The empty field map is the only input that \<open>sqlForPartialUpdate\<close> refuses.\<close>

lemma sqlForPartialUpdate_fails_iff:
  "(\<exists>e. sqlForPartialUpdate dataToUpdate jsToSql = Inl e) \<longleftrightarrow> dataToUpdate = []"
  by (cases dataToUpdate) (simp_all add: sqlForPartialUpdate_def Let_def)

text \<open>
  C7. A field name that the column mapping does not hold is meant to stand for itself. The
  lookup \<open>jsToSql[colName]\<close> also finds what the mapping inherits from \<open>Object.prototype\<close>:
  with the empty mapping \<open>{}\<close>, the field \<open>constructor\<close> resolves to the text of the
  function \<open>Object\<close>, not to \<open>constructor\<close>.
\<close>

theorem sqlForPartialUpdate_inherited_name:
  "sqlForPartialUpdate [(''constructor'', JNum 1)] []
   = Inr \<lparr> setCols = ''\"function Object() { [native code] }\"=$1'', values = [JNum 1] \<rparr>"
  by (simp add: sqlForPartialUpdate_def col_fragment_def column_name_def js_get_def js_or_def objectPrototype_def
        decimal.simps digit_char_def upt_rec)

text \<open>
  A name that is neither a key of the mapping nor a property of \<open>Object.prototype\<close> does
  stand for itself, as \<open>age\<close> with the empty mapping.
\<close>

lemma sqlForPartialUpdate_age:
  "sqlForPartialUpdate [(''age'', JNum 32)] []
   = Inr \<lparr> setCols = ''\"age\"=$1'', values = [JNum 32] \<rparr>"
  by (simp add: sqlForPartialUpdate_def col_fragment_def column_name_def js_get_def js_or_def objectPrototype_def
        decimal.simps digit_char_def upt_rec)

lemma column_name_fallback:
  assumes "map_of jsToSql colName = None" and "map_of objectPrototype colName = None"
  shows "js_toString (js_or (js_get jsToSql colName) (JStr colName)) = colName"
  using assms by (simp add: js_get_def js_or_def)

section \<open>The guard of the user routes\<close>

lemma nu_resolve: "never_unauthorized (resolve x)"
  by (simp add: never_unauthorized_def resolve_def is_unauthorized_def)

lemma nu_reject_not_found: "never_unauthorized (reject (NotFoundError m))"
  by (simp add: never_unauthorized_def reject_def is_unauthorized_def)

lemma nu_reject_bad_request: "never_unauthorized (reject (BadRequestError m))"
  by (simp add: never_unauthorized_def reject_def is_unauthorized_def)

lemma nu_await:
  assumes "never_unauthorized m" and "\<And>a. never_unauthorized (k a)"
  shows "never_unauthorized (await m k)"
  unfolding never_unauthorized_def
proof
  fix s
  show "\<not> is_unauthorized (fst (await m k s))"
  proof (cases "m s")
    case (Pair r s')
    show ?thesis
    proof (cases r)
      case (Inl e)
      from assms(1) have "\<not> is_unauthorized (fst (m s))"
        by (simp add: never_unauthorized_def)
      with Pair Inl show ?thesis by (simp add: await_def is_unauthorized_def)
    next
      case (Inr a)
      from assms(2)[of a] have "\<not> is_unauthorized (fst (k a s'))"
        by (simp add: never_unauthorized_def)
      with Pair Inr show ?thesis by (simp add: await_def)
    qed
  qed
qed

lemma nu_dbQuery: "never_unauthorized (dbQuery env sql ps)"
  by (auto simp: never_unauthorized_def dbQuery_def is_unauthorized_def split: prod.splits sum.splits)

lemma nu_hash: "never_unauthorized (hash env p)"
  by (auto simp: never_unauthorized_def hash_def is_unauthorized_def split: sum.splits)

lemma nu_User_getUserApplications: "never_unauthorized (User_getUserApplications env u)"
  unfolding User_getUserApplications_def Let_def
  by (intro nu_await nu_dbQuery nu_resolve)

lemma nu_User_get: "never_unauthorized (User_get env u)"
  unfolding User_get_def Let_def
  by (intro nu_await nu_dbQuery) (simp add: nu_reject_not_found nu_await nu_User_getUserApplications nu_resolve)

lemma nu_User_remove: "never_unauthorized (User_remove env u)"
  unfolding User_remove_def Let_def
  by (intro nu_await nu_dbQuery) (simp add: nu_reject_not_found nu_resolve)

lemma nu_User_applyForJob: "never_unauthorized (User_applyForJob env u j)"
  unfolding User_applyForJob_def Let_def
  by (intro nu_await nu_dbQuery) (simp add: nu_reject_not_found nu_resolve nu_await nu_dbQuery)

lemma nu_hash_password: "never_unauthorized (hash_password env d)"
  unfolding hash_password_def
  by (simp add: nu_await nu_hash nu_resolve)

lemma nu_update_statement: "never_unauthorized (sync (update_statement u d))"
  by (cases d) (simp_all add: never_unauthorized_def sync_def update_statement_def
      sqlForPartialUpdate_def is_unauthorized_def Let_def)

lemma nu_User_update: "never_unauthorized (User_update env u d)"
  unfolding User_update_def Let_def
  by (intro nu_await nu_hash_password nu_update_statement)
     (auto simp: nu_reject_not_found nu_resolve intro!: nu_await nu_dbQuery)

lemma ensureLoggedIn_anonymous:
  "locals_user req = None \<Longrightarrow>
   await (ensureLoggedIn req) k s = (Inl (UnauthorizedError ''authentication required''), s)"
  by (simp add: await_def ensureLoggedIn_def reject_def)

lemma ensureLoggedIn_identity:
  "locals_user req = Some user \<Longrightarrow> await (ensureLoggedIn req) k s = k user s"
  by (simp add: await_def ensureLoggedIn_def resolve_def)

lemma users_get_denied:
  assumes "\<not> self_or_admin req"
  shows "\<exists>msg. users_get env req s = (Inl (UnauthorizedError msg), s)"
proof (cases "locals_user req")
  case None
  then show ?thesis by (simp add: users_get_def ensureLoggedIn_anonymous)
next
  case (Some user)
  with assms show ?thesis
    by (simp add: users_get_def ensureLoggedIn_identity self_or_admin_def reject_def)
qed

lemma users_patch_denied:
  assumes "\<not> self_or_admin req"
  shows "\<exists>msg. users_patch env req s = (Inl (UnauthorizedError msg), s)"
proof (cases "locals_user req")
  case None
  then show ?thesis by (simp add: users_patch_def ensureLoggedIn_anonymous)
next
  case (Some user)
  with assms show ?thesis
    by (simp add: users_patch_def ensureLoggedIn_identity self_or_admin_def reject_def)
qed

lemma users_apply_denied:
  assumes "\<not> self_or_admin req"
  shows "\<exists>msg. users_apply env req s = (Inl (UnauthorizedError msg), s)"
proof (cases "locals_user req")
  case None
  then show ?thesis by (simp add: users_apply_def ensureLoggedIn_anonymous)
next
  case (Some user)
  with assms show ?thesis
    by (simp add: users_apply_def ensureLoggedIn_identity self_or_admin_def reject_def)
qed

lemma users_delete_denied:
  assumes "\<not> self_or_admin req"
  shows "\<exists>msg. users_delete env req s = (Inl (UnauthorizedError msg), s)"
proof (cases "locals_user req")
  case None
  then show ?thesis by (simp add: users_delete_def ensureLoggedIn_anonymous)
next
  case (Some user)
  with assms show ?thesis
    by (simp add: users_delete_def ensureLoggedIn_identity self_or_admin_def reject_def)
qed

lemma self_or_admin_identity:
  "self_or_admin req \<Longrightarrow> \<exists>user. locals_user req = Some user
     \<and> (strict_eq (js_get user ''username'') (js_get (params req) ''username'')
        \<or> truthy (js_get user ''isAdmin''))"
  by (cases "locals_user req") (simp_all add: self_or_admin_def)

lemma users_get_allowed:
  assumes "self_or_admin req"
  shows "users_get env req s =
     await (User_get env (js_get (params req) ''username''))
       (\<lambda>user. resolve \<lparr> status = 200, json = JObj [(''user'', user)] \<rparr>) s"
  using self_or_admin_identity[OF assms]
  by (auto simp: users_get_def ensureLoggedIn_identity)

lemma users_patch_allowed:
  assumes "self_or_admin req"
  shows "users_patch env req s =
     (if validate env ''userUpdate'' (body req) \<noteq> []
      then reject (BadRequestError (Texts (validate env ''userUpdate'' (body req))))
      else await (User_update env (js_get (params req) ''username'') (body req))
             (\<lambda>user. resolve \<lparr> status = 200, json = JObj [(''user'', user)] \<rparr>)) s"
  using self_or_admin_identity[OF assms]
  by (auto simp: users_patch_def ensureLoggedIn_identity Let_def)

lemma users_apply_allowed:
  assumes "self_or_admin req"
  shows "users_apply env req s =
     await (User_applyForJob env (js_get (params req) ''username'')
              (parseInt10 env (js_get (params req) ''id'')))
       (\<lambda>application. resolve \<lparr> status = 200,
           json = JObj [(''applied'', parseInt10 env (js_get (params req) ''id''))] \<rparr>) s"
  using self_or_admin_identity[OF assms]
  by (auto simp: users_apply_def ensureLoggedIn_identity Let_def)

lemma users_delete_allowed:
  assumes "self_or_admin req"
  shows "users_delete env req s =
     await (User_remove env (js_get (params req) ''username''))
       (\<lambda>removed. resolve \<lparr> status = 200,
           json = JObj [(''deleted'', js_get (params req) ''username'')] \<rparr>) s"
  using self_or_admin_identity[OF assms]
  by (auto simp: users_delete_def ensureLoggedIn_identity Let_def)

lemma never_unauthorizedD: "never_unauthorized m \<Longrightarrow> \<not> is_unauthorized (fst (m s))"
  by (simp add: never_unauthorized_def)

lemma users_get_guard: "is_unauthorized (fst (users_get env req s)) \<longleftrightarrow> \<not> self_or_admin req"
proof (cases "self_or_admin req")
  case True
  have "never_unauthorized (await (User_get env (js_get (params req) ''username''))
       (\<lambda>user. resolve \<lparr> status = 200, json = JObj [(''user'', user)] \<rparr>))"
    by (intro nu_await nu_User_get nu_resolve)
  with True show ?thesis by (simp add: users_get_allowed never_unauthorizedD)
next
  case False
  with users_get_denied[OF False, of env s] show ?thesis
    by (auto simp: is_unauthorized_def)
qed

lemma users_patch_guard: "is_unauthorized (fst (users_patch env req s)) \<longleftrightarrow> \<not> self_or_admin req"
proof (cases "self_or_admin req")
  case True
  have "never_unauthorized (if validate env ''userUpdate'' (body req) \<noteq> []
      then reject (BadRequestError (Texts (validate env ''userUpdate'' (body req))))
      else await (User_update env (js_get (params req) ''username'') (body req))
             (\<lambda>user. resolve \<lparr> status = 200, json = JObj [(''user'', user)] \<rparr>))"
    by (simp add: nu_await nu_User_update nu_resolve nu_reject_bad_request)
  with True show ?thesis by (simp only: users_patch_allowed never_unauthorizedD) simp
next
  case False
  with users_patch_denied[OF False, of env s] show ?thesis
    by (auto simp: is_unauthorized_def)
qed

lemma users_apply_guard: "is_unauthorized (fst (users_apply env req s)) \<longleftrightarrow> \<not> self_or_admin req"
proof (cases "self_or_admin req")
  case True
  have "never_unauthorized (await (User_applyForJob env (js_get (params req) ''username'')
              (parseInt10 env (js_get (params req) ''id'')))
       (\<lambda>application. resolve \<lparr> status = 200,
           json = JObj [(''applied'', parseInt10 env (js_get (params req) ''id''))] \<rparr>))"
    by (intro nu_await nu_User_applyForJob nu_resolve)
  with True show ?thesis by (simp add: users_apply_allowed never_unauthorizedD)
next
  case False
  with users_apply_denied[OF False, of env s] show ?thesis
    by (auto simp: is_unauthorized_def)
qed

lemma users_delete_guard: "is_unauthorized (fst (users_delete env req s)) \<longleftrightarrow> \<not> self_or_admin req"
proof (cases "self_or_admin req")
  case True
  have "never_unauthorized (await (User_remove env (js_get (params req) ''username''))
       (\<lambda>removed. resolve \<lparr> status = 200,
           json = JObj [(''deleted'', js_get (params req) ''username'')] \<rparr>))"
    by (intro nu_await nu_User_remove nu_resolve)
  with True show ?thesis by (simp add: users_delete_allowed never_unauthorizedD)
next
  case False
  with users_delete_denied[OF False, of env s] show ?thesis
    by (auto simp: is_unauthorized_def)
qed

lemma admin_only_denied:
  assumes "locals_user req = Some user" and "\<not> truthy (js_get user ''isAdmin'')"
  shows "users_get_all env req s = (Inl (UnauthorizedError ''Admin privileges required''), s)"
    and "users_post env req s = (Inl (UnauthorizedError ''Admin privileges required''), s)"
  using assms
  by (simp_all add: users_get_all_def users_post_def ensureLoggedIn_identity reject_def)

text \<open>
  C2. The handlers of \<open>GET\<close>, \<open>PATCH\<close>, \<open>DELETE /users/:username\<close> and
  \<open>POST /users/:username/jobs/:id\<close> end in \<open>UnauthorizedError\<close> exactly when the request is
  not from the user named in the path and not from an administrator; a request without an
  identity is among those. A denied request leaves the store as it was. A user who is no
  administrator, allowed on their own record, is still denied by the handlers for
  administrators only (\<open>GET /users\<close>, \<open>POST /users\<close>).
\<close>

theorem self_or_admin_guard:
  "(self_or_admin req \<longleftrightarrow>
      (\<exists>user. locals_user req = Some user
         \<and> (strict_eq (js_get user ''username'') (js_get (params req) ''username'')
            \<or> truthy (js_get user ''isAdmin''))))
   \<and> (is_unauthorized (fst (users_get env req s)) \<longleftrightarrow> \<not> self_or_admin req)
   \<and> (is_unauthorized (fst (users_patch env req s)) \<longleftrightarrow> \<not> self_or_admin req)
   \<and> (is_unauthorized (fst (users_apply env req s)) \<longleftrightarrow> \<not> self_or_admin req)
   \<and> (is_unauthorized (fst (users_delete env req s)) \<longleftrightarrow> \<not> self_or_admin req)
   \<and> (\<not> self_or_admin req \<longrightarrow>
         (\<exists>msg. users_get env req s = (Inl (UnauthorizedError msg), s))
       \<and> (\<exists>msg. users_patch env req s = (Inl (UnauthorizedError msg), s))
       \<and> (\<exists>msg. users_apply env req s = (Inl (UnauthorizedError msg), s))
       \<and> (\<exists>msg. users_delete env req s = (Inl (UnauthorizedError msg), s)))
   \<and> (\<forall>user. locals_user req = Some user \<and> \<not> truthy (js_get user ''isAdmin'') \<longrightarrow>
         is_unauthorized (fst (users_get_all env req s))
       \<and> is_unauthorized (fst (users_post env req s)))"
proof (intro conjI impI allI)
  show "self_or_admin req \<longleftrightarrow>
      (\<exists>user. locals_user req = Some user
         \<and> (strict_eq (js_get user ''username'') (js_get (params req) ''username'')
            \<or> truthy (js_get user ''isAdmin'')))"
    by (cases "locals_user req") (simp_all add: self_or_admin_def)
  show "is_unauthorized (fst (users_get env req s)) \<longleftrightarrow> \<not> self_or_admin req"
    by (rule users_get_guard)
  show "is_unauthorized (fst (users_patch env req s)) \<longleftrightarrow> \<not> self_or_admin req"
    by (rule users_patch_guard)
  show "is_unauthorized (fst (users_apply env req s)) \<longleftrightarrow> \<not> self_or_admin req"
    by (rule users_apply_guard)
  show "is_unauthorized (fst (users_delete env req s)) \<longleftrightarrow> \<not> self_or_admin req"
    by (rule users_delete_guard)
next
  assume "\<not> self_or_admin req"
  then show "\<exists>msg. users_get env req s = (Inl (UnauthorizedError msg), s)"
    and "\<exists>msg. users_patch env req s = (Inl (UnauthorizedError msg), s)"
    and "\<exists>msg. users_apply env req s = (Inl (UnauthorizedError msg), s)"
    and "\<exists>msg. users_delete env req s = (Inl (UnauthorizedError msg), s)"
    by (rule users_get_denied users_patch_denied users_apply_denied users_delete_denied)+
next
  fix user
  assume "locals_user req = Some user \<and> \<not> truthy (js_get user ''isAdmin'')"
  then show "is_unauthorized (fst (users_get_all env req s))"
    and "is_unauthorized (fst (users_post env req s))"
    by (simp_all add: admin_only_denied is_unauthorized_def)
qed

theorem self_or_admin_guard_witness:
  "self_or_admin owner_request
   \<and> \<not> is_unauthorized (fst (users_get empty_env owner_request ()))
   \<and> is_unauthorized (fst (users_get_all empty_env owner_request ()))
   \<and> \<not> self_or_admin stranger_request
   \<and> is_unauthorized (fst (users_patch empty_env stranger_request ()))
   \<and> self_or_admin admin_request
   \<and> \<not> is_unauthorized (fst (users_delete empty_env admin_request ()))
   \<and> \<not> self_or_admin anonymous_request
   \<and> is_unauthorized (fst (users_apply empty_env anonymous_request ()))"
  using self_or_admin_guard[of owner_request empty_env "()"]
        self_or_admin_guard[of stranger_request empty_env "()"]
        self_or_admin_guard[of admin_request empty_env "()"]
        self_or_admin_guard[of anonymous_request empty_env "()"]
  by (simp add: self_or_admin_def owner_request_def stranger_request_def admin_request_def
        anonymous_request_def js_get_def objectPrototype_def)

section \<open>Properties of the user model\<close>

lemma await_dbQuery_rows:
  "db_query env sql ps s = (Inr rows, s') \<Longrightarrow> await (dbQuery env sql ps) k s = k rows s'"
  by (simp add: await_def dbQuery_def)

lemma first_row_simps: "first_row [] = JUndefined" "first_row (r # rows) = JObj r"
  by (simp_all add: first_row_def)

lemma getUserApplications_rows:
  "db_query env sql_select_applications [username] s = (Inr rows, s')
   \<Longrightarrow> User_getUserApplications env username s = (Inr JUndefined, s')"
  by (simp add: User_getUserApplications_def await_dbQuery_rows resolve_def)

lemma getUserApplications_value:
  "User_getUserApplications env username s = (Inr v, s') \<Longrightarrow> v = JUndefined"
  by (auto simp: User_getUserApplications_def await_def dbQuery_def resolve_def
           split: prod.splits sum.splits)

lemma js_set_present: "map_of (js_set obj key v) key = Some v"
  by (induction obj key v rule: js_set.induct) auto

lemma js_get_js_set: "js_get (js_set obj key v) key = v"
  by (simp add: js_get_def js_set_present)

lemma User_get_existing:
  assumes "db_query env sql_select_user [username] s = (Inr (u # rest), s1)"
    and "db_query env sql_select_applications [username] s1 = (Inr rows, s2)"
  shows "User_get env username s = (Inr (JObj (js_set u ''josb'' JUndefined)), s2)"
proof -
  have "User_get env username s =
      await (User_getUserApplications env username)
        (\<lambda>jobIds. resolve (JObj (js_set u ''josb'' jobIds))) s1"
    unfolding User_get_def
    by (subst await_dbQuery_rows[OF assms(1)]) (simp add: first_row_simps js_props_def)
  also have "\<dots> = resolve (JObj (js_set u ''josb'' JUndefined)) s2"
    using getUserApplications_rows[OF assms(2)] by (simp add: await_def)
  finally show ?thesis by (simp add: resolve_def)
qed

lemma User_get_value:
  assumes "User_get env username s = (Inr v, s')"
  shows "\<exists>u. v = JObj (js_set u ''josb'' JUndefined)"
  using assms
  by (auto simp: User_get_def await_def dbQuery_def resolve_def reject_def Let_def
        User_getUserApplications_def
        split: prod.splits sum.splits if_splits)

text \<open>
  C10. \<open>User.getUserApplications\<close> never returns anything but \<open>undefined\<close>: the list it maps
  from the rows is dropped. Whenever the store answers its query, it returns \<open>undefined\<close>. So
  for a user the store holds, \<open>User.get\<close> returns the user's row with the key \<open>josb\<close> added
  and \<open>undefined\<close> under it, and every record \<open>User.get\<close> returns has \<open>josb\<close> as an own key
  with the value \<open>undefined\<close>.
\<close>

theorem getUserApplications_returns_undefined:
  "(\<forall>v s'. User_getUserApplications env username s = (Inr v, s') \<longrightarrow> v = JUndefined)
   \<and> (\<forall>rows s'. db_query env sql_select_applications [username] s = (Inr rows, s') \<longrightarrow>
          User_getUserApplications env username s = (Inr JUndefined, s'))
   \<and> (\<forall>u rest s1 rows s2.
          db_query env sql_select_user [username] s = (Inr (u # rest), s1)
          \<and> db_query env sql_select_applications [username] s1 = (Inr rows, s2) \<longrightarrow>
          User_get env username s = (Inr (JObj (js_set u ''josb'' JUndefined)), s2))
   \<and> (\<forall>v s'. User_get env username s = (Inr v, s') \<longrightarrow>
          map_of (js_props v) ''josb'' = Some JUndefined
          \<and> js_get (js_props v) ''josb'' = JUndefined)"
proof (intro conjI allI impI)
  fix v s' assume "User_getUserApplications env username s = (Inr v, s')"
  then show "v = JUndefined" by (rule getUserApplications_value)
next
  fix rows s' assume "db_query env sql_select_applications [username] s = (Inr rows, s')"
  then show "User_getUserApplications env username s = (Inr JUndefined, s')"
    by (rule getUserApplications_rows)
next
  fix u rest s1 rows s2
  assume "db_query env sql_select_user [username] s = (Inr (u # rest), s1)
          \<and> db_query env sql_select_applications [username] s1 = (Inr rows, s2)"
  then show "User_get env username s = (Inr (JObj (js_set u ''josb'' JUndefined)), s2)"
    by (simp add: User_get_existing)
next
  fix v s' assume got: "User_get env username s = (Inr v, s')"
  from User_get_value[OF got] obtain u where "v = JObj (js_set u ''josb'' JUndefined)" ..
  then show "map_of (js_props v) ''josb'' = Some JUndefined"
    and "js_get (js_props v) ''josb'' = JUndefined"
    by (simp_all add: js_props_def js_set_present js_get_js_set)
qed

lemma store0_select_user:
  "store_query sql_select_user [JStr ''u1''] store0 =
     (Inr [[(''username'', JStr ''u1''), (''firstName'', JStr ''U1F''), (''lastName'', JStr ''U1L''),
            (''email'', JStr ''user1@user.com''), (''isAdmin'', JBool False)]], store0)"
  by (simp add: store_query_def store0_def user_columns_def js_get_def)

lemma store0_select_applications:
  "store_query sql_select_applications [JStr ''u1''] store0 = (Inr [], store0)"
  by (simp add: store_query_def store0_def sql_select_applications_def sql_select_user_def
        sql_select_all_users_def sql_select_username_def sql_select_job_def
        sql_insert_application_def)

theorem getUserApplications_returns_undefined_witness:
  "User_getUserApplications store_env (JStr ''u1'') store0 = (Inr JUndefined, store0)
   \<and> User_get store_env (JStr ''u1'') store0 =
       (Inr (JObj [(''username'', JStr ''u1''), (''firstName'', JStr ''U1F''),
                   (''lastName'', JStr ''U1L''), (''email'', JStr ''user1@user.com''),
                   (''isAdmin'', JBool False), (''josb'', JUndefined)]), store0)"
  using getUserApplications_returns_undefined[of store_env "JStr ''u1''" store0]
  by (simp add: store_env_def store0_select_user store0_select_applications)

lemma User_get_zero_rows:
  assumes "db_query env sql_select_user [username] s = (Inr [], s')"
  shows "User_get env username s = (Inl (NotFoundError (''No user: '' @ js_toString username)), s')"
  unfolding User_get_def
  by (subst await_dbQuery_rows[OF assms]) (simp add: first_row_simps reject_def)

lemma User_remove_zero_rows:
  assumes "db_query env sql_delete_user [username] s = (Inr [], s')"
  shows "User_remove env username s = (Inl (NotFoundError (''No user: '' @ js_toString username)), s')"
  unfolding User_remove_def
  by (subst await_dbQuery_rows[OF assms]) (simp add: first_row_simps reject_def)

lemma User_update_after_hash:
  assumes "hash_password env data0 s = (Inr data, s1)"
    and "update_statement username data = Inr (sql, ps)"
  shows "User_update env username data0 s =
     await (dbQuery env sql ps) (\<lambda>result.
       let user = first_row result in
       if \<not> truthy user then reject (NotFoundError (''No user: '' @ js_toString username))
       else resolve (JObj (js_delete (js_props user) ''password''))) s1"
  unfolding User_update_def using assms
  by (simp add: await_def sync_def)

lemma User_update_zero_rows:
  assumes "hash_password env data0 s = (Inr data, s1)"
    and "update_statement username data = Inr (sql, ps)"
    and "db_query env sql ps s1 = (Inr [], s')"
  shows "User_update env username data0 s =
     (Inl (NotFoundError (''No user: '' @ js_toString username)), s')"
  by (subst User_update_after_hash[OF assms(1,2)], subst await_dbQuery_rows[OF assms(3)])
     (simp add: first_row_simps reject_def)

lemma hash_password_empty: "hash_password env [] s = (Inr [], s)"
  by (simp add: hash_password_def js_get_def objectPrototype_def resolve_def)

lemma User_update_empty_data:
  "User_update env username [] s = (Inl (BadRequestError (Text ''No data'')), s)"
  unfolding User_update_def
  by (simp add: await_def hash_password_empty update_statement_def sqlForPartialUpdate_def sync_def)

text \<open>
  C6. When the store answers the statement of \<open>User.get\<close>, of \<open>User.remove\<close> or of
  \<open>User.update\<close> with zero rows, the operation throws \<open>NotFoundError\<close>, which is not an
  \<open>UnauthorizedError\<close>; the handlers of \<open>GET\<close> and \<open>DELETE /users/:username\<close> hand that error
  on for a request that passed the guard. (\<open>User.update\<close> issues its statement once the field
  map, its password hashed, has passed \<open>sqlForPartialUpdate\<close>; an empty field map is refused
  there with \<open>BadRequestError\<close>, before any statement: \<open>User_update_empty_data\<close>.)
\<close>

lemma users_get_zero_rows:
  assumes "self_or_admin req"
    and "db_query env sql_select_user [js_get (params req) ''username''] s = (Inr [], s')"
  shows "users_get env req s =
     (Inl (NotFoundError (''No user: '' @ js_toString (js_get (params req) ''username''))), s')"
  by (simp add: users_get_allowed[OF assms(1)] await_def User_get_zero_rows[OF assms(2)])

lemma users_delete_zero_rows:
  assumes "self_or_admin req"
    and "db_query env sql_delete_user [js_get (params req) ''username''] s = (Inr [], s')"
  shows "users_delete env req s =
     (Inl (NotFoundError (''No user: '' @ js_toString (js_get (params req) ''username''))), s')"
  by (simp add: users_delete_allowed[OF assms(1)] await_def User_remove_zero_rows[OF assms(2)])

theorem not_found_on_zero_rows:
  "(\<forall>s'. db_query env sql_select_user [username] s = (Inr [], s') \<longrightarrow>
       User_get env username s = (Inl (NotFoundError (''No user: '' @ js_toString username)), s')
       \<and> is_not_found (fst (User_get env username s))
       \<and> \<not> is_unauthorized (fst (User_get env username s)))
   \<and> (\<forall>s'. db_query env sql_delete_user [username] s = (Inr [], s') \<longrightarrow>
       User_remove env username s = (Inl (NotFoundError (''No user: '' @ js_toString username)), s')
       \<and> is_not_found (fst (User_remove env username s))
       \<and> \<not> is_unauthorized (fst (User_remove env username s)))
   \<and> (\<forall>data s1 sql ps s'.
         hash_password env data0 s = (Inr data, s1)
         \<and> update_statement username data = Inr (sql, ps)
         \<and> db_query env sql ps s1 = (Inr [], s') \<longrightarrow>
       User_update env username data0 s
         = (Inl (NotFoundError (''No user: '' @ js_toString username)), s')
       \<and> is_not_found (fst (User_update env username data0 s))
       \<and> \<not> is_unauthorized (fst (User_update env username data0 s)))
   \<and> (\<forall>s'. self_or_admin req
         \<and> db_query env sql_select_user [js_get (params req) ''username''] s = (Inr [], s') \<longrightarrow>
       is_not_found (fst (users_get env req s))
       \<and> \<not> is_unauthorized (fst (users_get env req s)))
   \<and> (\<forall>s'. self_or_admin req
         \<and> db_query env sql_delete_user [js_get (params req) ''username''] s = (Inr [], s') \<longrightarrow>
       is_not_found (fst (users_delete env req s))
       \<and> \<not> is_unauthorized (fst (users_delete env req s)))"
  by (auto simp: User_get_zero_rows User_remove_zero_rows User_update_zero_rows
        users_get_zero_rows users_delete_zero_rows is_not_found_def is_unauthorized_def)

lemma empty_env_update_statement:
  "update_statement (JStr ''nope'') [(''firstName'', JStr ''Nope'')]
   = Inr (''UPDATE users SET \"first_name\"=$1 WHERE username = $2 RETURNING username, first_name AS \"firstName\", last_name AS \"lastName\", email, is_admin AS \"isAdmin\"'',
          [JStr ''Nope'', JStr ''nope''])"
  by (simp add: update_statement_def sqlForPartialUpdate_def col_fragment_def column_name_def js_get_def js_or_def
        sql_update_user_def decimal.simps digit_char_def)

theorem not_found_on_zero_rows_witness:
  "User_get empty_env (JStr ''nope'') () = (Inl (NotFoundError ''No user: nope''), ())
   \<and> User_remove empty_env (JStr ''nope'') () = (Inl (NotFoundError ''No user: nope''), ())
   \<and> User_update empty_env (JStr ''nope'') [(''firstName'', JStr ''Nope'')] ()
       = (Inl (NotFoundError ''No user: nope''), ())
   \<and> is_not_found (fst (users_get empty_env admin_request ()))
   \<and> is_not_found (fst (users_delete empty_env owner_request ()))"
  using not_found_on_zero_rows[of empty_env "JStr ''nope''" "()" "[(''firstName'', JStr ''Nope'')]"]
        not_found_on_zero_rows[of empty_env "JStr ''u1''" "()" "[]" admin_request]
        not_found_on_zero_rows[of empty_env "JStr ''u1''" "()" "[]" owner_request]
  by (simp add: empty_env_def empty_env_update_statement hash_password_def js_get_def
        objectPrototype_def resolve_def self_or_admin_def admin_request_def owner_request_def)









section \<open>Duplicate applications\<close>

lemmas sql_texts = sql_select_user_def sql_select_all_users_def sql_select_username_def
  sql_select_job_def sql_insert_application_def sql_select_applications_def sql_delete_user_def

text \<open>
  On the modelled store, a username that no account record carries is a key that matches no
  row: \<open>User.get\<close> and \<open>User.remove\<close> throw \<open>NotFoundError\<close>.
\<close>

lemma store_get_absent:
  assumes "username \<notin> set (map (\<lambda>row. js_get row ''username'') (users st))"
  shows "User_get store_env username st
     = (Inl (NotFoundError (''No user: '' @ js_toString username)), st)"
proof -
  have "filter (\<lambda>row. js_get row ''username'' = username) (users st) = []"
    using assms by (auto simp: filter_empty_conv)
  then have "db_query store_env sql_select_user [username] st = (Inr [], st)"
    by (simp add: store_env_def store_query_def)
  then show ?thesis by (rule User_get_zero_rows)
qed

lemma store_remove_absent:
  assumes "username \<notin> set (map (\<lambda>row. js_get row ''username'') (users st))"
  shows "\<exists>st'. User_remove store_env username st
     = (Inl (NotFoundError (''No user: '' @ js_toString username)), st')"
proof -
  have "filter (\<lambda>row. js_get row ''username'' = username) (users st) = []"
    using assms by (auto simp: filter_empty_conv)
  then have "\<exists>st'. db_query store_env sql_delete_user [username] st = (Inr [], st')"
    by (simp add: store_env_def store_query_def sql_texts)
  then obtain st' where "db_query store_env sql_delete_user [username] st = (Inr [], st')" ..
  from User_remove_zero_rows[OF this] show ?thesis ..
qed

lemma store0_select_username:
  "store_query sql_select_username [JStr ''u1''] st =
     (Inr (map (\<lambda>row. [(''username'', js_get row ''username'')])
                (filter (\<lambda>row. js_get row ''username'' = JStr ''u1'') (users st))), st)"
  by (simp add: store_query_def sql_texts)

lemma store_select_job:
  "store_query sql_select_job [j] st =
     (Inr (map (\<lambda>row. [(''id'', js_get row ''id'')])
                (filter (\<lambda>row. js_get row ''id'' = j) (jobs st))), st)"
  by (simp add: store_query_def sql_texts)

lemma store_insert_application:
  "store_query sql_insert_application [u, j] st =
     (if (u, j) \<in> set (applications st) then
        (Inl ''duplicate key value violates unique constraint \"applications_pkey\"'', st)
      else if u \<in> set (map (\<lambda>row. js_get row ''username'') (users st))
              \<and> j \<in> set (map (\<lambda>row. js_get row ''id'') (jobs st)) then
        (Inr [], st\<lparr> applications := applications st @ [(u, j)] \<rparr>)
      else
        (Inl ''insert or update on table \"applications\" violates foreign key constraint'', st))"
  by (simp add: store_query_def sql_texts)

text \<open>
  C5. A second application for the same user and job is meant to fail with a conflict that
  the client is told of, as a duplicate username does in \<open>User.register\<close>
  (\<open>register_duplicate_is_bad_request\<close>). \<open>User.applyForJob\<close> checks that the user and the job
  exist and inserts: on a store whose applications are keyed by the pair, the first call
  succeeds and the second ends in the store's own failure on the duplicate key, which is no
  \<open>BadRequestError\<close>; the route hands that same error on.
\<close>

theorem applyForJob_twice_is_store_failure:
  "User_applyForJob store_env (JStr ''u1'') (JNum 1) store0
     = (Inr (JObj [(''applied'', JNum 1)]), store1)
   \<and> User_applyForJob store_env (JStr ''u1'') (JNum 1) store1
     = (Inl (DbError ''duplicate key value violates unique constraint \"applications_pkey\"''),
        store1)
   \<and> \<not> is_bad_request (fst (User_applyForJob store_env (JStr ''u1'') (JNum 1) store1))
   \<and> users_apply store_env apply_request store1
     = (Inl (DbError ''duplicate key value violates unique constraint \"applications_pkey\"''),
        store1)"
  by (simp add: User_applyForJob_def await_def dbQuery_def store_env_def store0_select_username
        store_select_job store_insert_application store0_def store1_def js_get_def first_row_def
        resolve_def is_bad_request_def users_apply_def ensureLoggedIn_def apply_request_def Let_def strict_eq.simps reject_def
        example_parseInt_def nat_of_string_def digit_val_def objectPrototype_def)

text \<open>Whatever the store, a failure of the insert is what \<open>User.applyForJob\<close> throws.\<close>

lemma applyForJob_insert_failure:
  assumes "db_query env sql_select_username [username] s = (Inr (u # us), s1)"
    and "db_query env sql_select_job [jobId] s1 = (Inr (j # js), s2)"
    and "db_query env sql_insert_application [username, jobId] s2 = (Inl m, s3)"
  shows "User_applyForJob env username jobId s = (Inl (DbError m), s3)"
  using assms
  by (simp add: User_applyForJob_def await_def dbQuery_def first_row_def)

text \<open>\<open>User.register\<close> looks for the key first and refuses a duplicate itself.\<close>

lemma register_duplicate_is_bad_request:
  assumes "db_query env sql_select_username [js_get data ''username''] s = (Inr (u # us), s1)"
  shows "User_register env data s =
     (Inl (BadRequestError (Text (''Duplicate username: '' @ js_toString (js_get data ''username'')))), s1)"
  using assms
  by (simp add: User_register_def Let_def await_def dbQuery_def first_row_def reject_def)

section \<open>The range check of the company list\<close>

text \<open>Without route parameters the handler passes no filter on, whatever the query string.\<close>

lemma companies_get_no_params:
  assumes "params req = []"
  shows "companies_get env req s =
     await (company_findAll env
              [(''nameLike'', JUndefined), (''minEmployees'', JUndefined),
               (''maxEmployees'', JUndefined)])
       (\<lambda>companies. resolve \<lparr> status = 200, json = JObj [(''companies'', companies)] \<rparr>) s"
  using assms by (simp add: companies_get_def js_get_def objectPrototype_def)

text \<open>
  C4. A list request whose minimum is above its maximum is meant to fail with
  \<open>BadRequestError\<close>. The handler of \<open>GET /companies\<close> reads the filters from the route
  parameters, which are empty on this route, and not from the query string: for
  \<open>?minEmployees=5&maxEmployees=1\<close>, where 5 is above 1, it calls \<open>Company.findAll\<close> with
  every filter \<open>undefined\<close> and answers 200. The check does fire on the same values when
  they are route parameters.
\<close>

theorem companies_get_ignores_query:
  "example_plus_gt (JStr ''5'') (JStr ''1'')
   \<and> companies_get empty_env inverted_range_request ()
       = (Inr \<lparr> status = 200, json = JObj [(''companies'', JArr [])] \<rparr>, ())
   \<and> \<not> is_bad_request (fst (companies_get empty_env inverted_range_request ()))
   \<and> companies_get empty_env inverted_range_in_params ()
       = (Inl (BadRequestError (Text ''minEmployees cannot be greater than maxEmployees'')), ())"
  by (simp add: companies_get_def empty_env_def inverted_range_request_def
        inverted_range_in_params_def js_get_def objectPrototype_def await_def resolve_def
        reject_def is_bad_request_def example_plus_gt_def to_number_def nat_of_string_def
        digit_val_def)

section \<open>Properties of the Filter Builder\<close>

lemma present_filters_false:
  "present_filters cols (f\<lparr>flag := Some False\<rparr>) = present_filters cols (f\<lparr>flag := None\<rparr>)"
  by (simp add: present_filters_def)

lemma present_filters_true:
  "present_filters cols (f\<lparr>flag := Some True\<rparr>)
   = present_filters cols (f\<lparr>flag := None\<rparr>) @ [(flag_column cols @ '' = '', JBool True)]"
  by (simp add: present_filters_def)

lemma invalid_range_flag: "invalid_range (f\<lparr>flag := b\<rparr>) = invalid_range f"
  by (simp add: invalid_range_def)

lemma satisfies_false: "satisfies (f\<lparr>flag := Some False\<rparr>) = satisfies (f\<lparr>flag := None\<rparr>)"
  by (rule ext) (simp add: satisfies_def)

lemma satisfies_true:
  "satisfies (f\<lparr>flag := Some True\<rparr>) = (\<lambda>r. satisfies (f\<lparr>flag := None\<rparr>) r \<and> row_flag r)"
  by (rule ext) (auto simp: satisfies_def)

text \<open>
  C8. A flag filter of value false adds no predicate and no value: the clause, the values and
  the rows returned are those of the same filter spec without the flag. A flag of value true
  adds, after the other predicates, one predicate and the one value it binds, and keeps of
  those rows the ones where the flag holds.
\<close>

theorem false_flag_is_absent:
  "buildFilter cols (f\<lparr>flag := Some False\<rparr>) = buildFilter cols (f\<lparr>flag := None\<rparr>)
   \<and> present_filters cols (f\<lparr>flag := Some False\<rparr>) = present_filters cols (f\<lparr>flag := None\<rparr>)
   \<and> list_rows (f\<lparr>flag := Some False\<rparr>) rows = list_rows (f\<lparr>flag := None\<rparr>) rows
   \<and> present_filters cols (f\<lparr>flag := Some True\<rparr>)
       = present_filters cols (f\<lparr>flag := None\<rparr>) @ [(flag_column cols @ '' = '', JBool True)]
   \<and> list_rows (f\<lparr>flag := Some True\<rparr>) rows
       = (case list_rows (f\<lparr>flag := None\<rparr>) rows of
            Inl e \<Rightarrow> Inl e
          | Inr found \<Rightarrow> Inr (filter row_flag found))"
proof (intro conjI)
  show "buildFilter cols (f\<lparr>flag := Some False\<rparr>) = buildFilter cols (f\<lparr>flag := None\<rparr>)"
    by (simp only: buildFilter_def present_filters_false invalid_range_flag)
  show "present_filters cols (f\<lparr>flag := Some False\<rparr>) = present_filters cols (f\<lparr>flag := None\<rparr>)"
    by (rule present_filters_false)
  show "list_rows (f\<lparr>flag := Some False\<rparr>) rows = list_rows (f\<lparr>flag := None\<rparr>) rows"
    by (simp only: list_rows_def invalid_range_flag satisfies_false)
  show "present_filters cols (f\<lparr>flag := Some True\<rparr>)
       = present_filters cols (f\<lparr>flag := None\<rparr>) @ [(flag_column cols @ '' = '', JBool True)]"
    by (rule present_filters_true)
  show "list_rows (f\<lparr>flag := Some True\<rparr>) rows
       = (case list_rows (f\<lparr>flag := None\<rparr>) rows of
            Inl e \<Rightarrow> Inl e
          | Inr found \<Rightarrow> Inr (filter row_flag found))"
    by (simp add: list_rows_def invalid_range_flag satisfies_true)
qed

theorem false_flag_is_absent_witness:
  "buildFilter job_columns (no_filter\<lparr>flag := Some False\<rparr>) = Inr ([], [])
   \<and> list_rows (no_filter\<lparr>flag := Some False\<rparr>) job_rows = Inr job_rows
   \<and> buildFilter job_columns (no_filter\<lparr>flag := Some True\<rparr>)
       = Inr (''has_equity = $1'', [JBool True])
   \<and> list_rows (no_filter\<lparr>flag := Some True\<rparr>) job_rows = Inr (take 2 job_rows)"
  using false_flag_is_absent[of job_columns no_filter job_rows]
  by (simp add: buildFilter_def present_filters_def invalid_range_def no_filter_def
        job_columns_def list_rows_def satisfies_def job_rows_def decimal.simps digit_char_def)

end
